theory Spec2Isabelle
  imports Complex_Main "HOL-Library.Sublist"
begin

section \<open>Pagination utilities (src/utils/pagination.py)\<close>

text \<open>
  Python integers are unbounded, so \<open>page\<close> and \<open>per_page\<close> are of type \<open>int\<close>.
  \<^verbatim>\<open>
  def validate_pagination_params(page, per_page, max_per_page=100):
      page = max(page, 1)
      if per_page < 1:
          per_page = 10
      per_page = min(per_page, max_per_page)
      return page, per_page
  \<close>
\<close>

definition validate_pagination_params :: "int \<Rightarrow> int \<Rightarrow> int \<Rightarrow> int \<times> int" where
  "validate_pagination_params page per_page max_per_page =
     (let page1 = max page 1;
          per_page1 = (if per_page < 1 then 10 else per_page);
          per_page2 = min per_page1 max_per_page
      in (page1, per_page2))"

text \<open>
  Python's slice \<open>xs[start:stop]\<close> (step 1) on a sequence of length \<open>n\<close>: a negative
  bound counts from the end and is clipped at 0, a non-negative bound is clipped at \<open>n\<close>;
  the slice is empty when the adjusted stop is not beyond the adjusted start.
\<close>

definition slice_index :: "nat \<Rightarrow> int \<Rightarrow> nat" where
  "slice_index n i = (if i < 0 then nat (max (int n + i) 0) else min (nat i) n)"

definition py_slice :: "'a list \<Rightarrow> int \<Rightarrow> int \<Rightarrow> 'a list" where
  "py_slice xs start stop =
     (let n = length xs; lo = slice_index n start; hi = slice_index n stop
      in take (hi - lo) (drop lo xs))"

text \<open>
  The dictionary \<open>{"page", "per_page", "total", "items"}\<close> that \<open>paginate_response\<close>
  returns (and the envelope of the coin-list endpoint) is a record; its fields carry the
  prefix \<open>resp_\<close> so that \<open>page\<close> and \<open>per_page\<close> stay free for the parameters.
\<close>

record 'a paginated =
  resp_page :: int
  resp_per_page :: int
  resp_total :: int
  resp_items :: "'a list"

text \<open>
  \<^verbatim>\<open>
  def paginate_response(items, page, per_page):
      total_items = len(items)
      start_idx = (page - 1) * per_page
      end_idx = start_idx + per_page
      paginated_items = items[start_idx:end_idx] if start_idx < total_items else []
      return {"page": page, "per_page": per_page, "total": total_items,
              "items": paginated_items}
  \<close>
\<close>

definition paginate_response :: "'a list \<Rightarrow> int \<Rightarrow> int \<Rightarrow> 'a paginated" where
  "paginate_response items page per_page =
     (let total_items = int (length items);
          start_idx = (page - 1) * per_page;
          end_idx = start_idx + per_page;
          paginated_items = (if start_idx < total_items
                             then py_slice items start_idx end_idx else [])
      in \<lparr>resp_page = page, resp_per_page = per_page, resp_total = total_items,
          resp_items = paginated_items\<rparr>)"

text \<open>The items of the pages 1, 2, ..., n, one after the other.\<close>

definition pages_upto :: "'a list \<Rightarrow> int \<Rightarrow> nat \<Rightarrow> 'a list" where
  "pages_upto xs per_page n =
     concat (map (\<lambda>k. resp_items (paginate_response xs (int k + 1) per_page)) [0..<n])"

section \<open>JSON values and Python exceptions\<close>

text \<open>
  A decoded JSON payload, as \<open>response.json()\<close> returns it: \<open>None\<close>, a bool, an int, a
  float (a finite float is a rational number), a str, a list or a dict. A dict keeps its
  entries in insertion order; its keys are distinct and a lookup (\<open>map_of\<close>) finds the
  entry of a key.
\<close>

datatype json =
    JNull
  | JBool bool
  | JInt int
  | JFloat rat
  | JStr string
  | JList "json list"
  | JDict "(string \<times> json) list"

text \<open>Python's truth value of an object, as tested by \<open>if not data\<close> and \<open>if coins\<close>.\<close>

fun truthy :: "json \<Rightarrow> bool" where
  "truthy JNull = False"
| "truthy (JBool b) = b"
| "truthy (JInt i) = (i \<noteq> 0)"
| "truthy (JFloat r) = (r \<noteq> 0)"
| "truthy (JStr s) = (s \<noteq> [])"
| "truthy (JList xs) = (xs \<noteq> [])"
| "truthy (JDict d) = (d \<noteq> [])"

fun type_name :: "json \<Rightarrow> string" where
  "type_name JNull = ''NoneType''"
| "type_name (JBool b) = ''bool''"
| "type_name (JInt i) = ''int''"
| "type_name (JFloat r) = ''float''"
| "type_name (JStr s) = ''str''"
| "type_name (JList xs) = ''list''"
| "type_name (JDict d) = ''dict''"

definition quoted :: "string \<Rightarrow> string" where
  "quoted s = CHR 0x27 # s @ [CHR 0x27]"

text \<open>
  A message contains a phrase up to letter case when the lowered phrase is a contiguous part
  of the lowered message, as \<open>phrase.lower() in message.lower()\<close>. Lowering an ASCII capital
  letter (codes 65 to 90) sets the bit of weight 32.
\<close>

fun to_lower :: "char \<Rightarrow> char" where
  "to_lower (Char b0 b1 b2 b3 b4 b5 b6 b7) =
     (if 65 \<le> (of_char (Char b0 b1 b2 b3 b4 b5 b6 b7) :: nat)
         \<and> (of_char (Char b0 b1 b2 b3 b4 b5 b6 b7) :: nat) \<le> 90
      then Char b0 b1 b2 b3 b4 True b6 b7
      else Char b0 b1 b2 b3 b4 b5 b6 b7)"

definition lower :: "string \<Rightarrow> string" where
  "lower s = map to_lower s"

definition contains_ignoring_case :: "string \<Rightarrow> string \<Rightarrow> bool" where
  "contains_ignoring_case message phrase = sublist (lower phrase) (lower message)"

text \<open>
  A raised exception is the left summand of a result. The handlers of the service tell
  only FastAPI's \<open>HTTPException(status_code, detail)\<close> from every other exception;
  \<open>PyError m\<close> is any other exception, with \<open>m\<close> its \<open>str(e)\<close>.
\<close>

datatype exc = HTTPException int string | PyError string

fun status_code :: "exc \<Rightarrow> int option" where
  "status_code (HTTPException s d) = Some s"
| "status_code (PyError m) = None"

text \<open>The status of the HTTPException a result raised, if it raised one.\<close>

fun raised_status :: "exc + 'a \<Rightarrow> int option" where
  "raised_status (Inl e) = status_code e"
| "raised_status (Inr v) = None"

definition bind_exc :: "exc + 'a \<Rightarrow> ('a \<Rightarrow> exc + 'b) \<Rightarrow> exc + 'b" where
  "bind_exc r f = (case r of Inl e \<Rightarrow> Inl e | Inr v \<Rightarrow> f v)"

text \<open>A comprehension \<open>[f(x) for x in xs]\<close>: the first element that raises ends it.\<close>

fun map_exc :: "('a \<Rightarrow> exc + 'b) \<Rightarrow> 'a list \<Rightarrow> exc + 'b list" where
  "map_exc f [] = Inr []"
| "map_exc f (x # xs) =
     (case f x of
        Inl e \<Rightarrow> Inl e
      | Inr y \<Rightarrow> (case map_exc f xs of Inl e \<Rightarrow> Inl e | Inr ys \<Rightarrow> Inr (y # ys)))"

text \<open>
  \<open>v.get(key, default)\<close>. Only a dict has the method; on any other JSON value the call
  raises AttributeError. The key is optional because the configured currency may be
  \<open>None\<close>, which is no key of a decoded JSON object.
\<close>

definition dict_get :: "(string \<times> json) list \<Rightarrow> string option \<Rightarrow> json \<Rightarrow> json" where
  "dict_get d key dflt =
     (case key of
        None \<Rightarrow> dflt
      | Some k \<Rightarrow> (case map_of d k of None \<Rightarrow> dflt | Some v \<Rightarrow> v))"

definition no_attribute_get :: "json \<Rightarrow> exc" where
  "no_attribute_get v =
     PyError (quoted (type_name v) @ '' object has no attribute '' @ quoted ''get'')"

fun attr_get :: "json \<Rightarrow> string option \<Rightarrow> json \<Rightarrow> exc + json" where
  "attr_get (JDict d) key dflt = Inr (dict_get d key dflt)"
| "attr_get v key dflt = Inl (no_attribute_get v)"

text \<open>A chain \<open>v.get(k1, d1).get(k2, d2)...\<close>, evaluated from the left.\<close>

fun get_path :: "json \<Rightarrow> (string option \<times> json) list \<Rightarrow> exc + json" where
  "get_path v [] = Inr v"
| "get_path v ((key, dflt) # steps) =
     (case attr_get v key dflt of Inl e \<Rightarrow> Inl e | Inr w \<Rightarrow> get_path w steps)"

text \<open>
  \<open>data[:per_page]\<close>: a list or a str is sliced; a dict takes the slice for a key
  (TypeError, unhashable, up to CPython 3.11; KeyError from 3.12), every other value is
  not subscriptable.
\<close>

fun slice_to :: "json \<Rightarrow> int \<Rightarrow> exc + json" where
  "slice_to (JList xs) stop = Inr (JList (py_slice xs 0 stop))"
| "slice_to (JStr s) stop = Inr (JStr (py_slice s 0 stop))"
| "slice_to (JDict d) stop = Inl (PyError (''unhashable type: '' @ quoted ''slice''))"
| "slice_to v stop = Inl (PyError (quoted (type_name v) @ '' object is not subscriptable''))"

text \<open>
  \<open>for coin in data\<close>: a list yields its elements, a str its characters (each a str), a
  dict its keys; any other value is not iterable.
\<close>

fun py_iter :: "json \<Rightarrow> exc + json list" where
  "py_iter (JList xs) = Inr xs"
| "py_iter (JStr s) = Inr (map (\<lambda>c. JStr [c]) s)"
| "py_iter (JDict d) = Inr (map (\<lambda>(k, v). JStr k) d)"
| "py_iter v = Inl (PyError (quoted (type_name v) @ '' object is not iterable''))"

section \<open>The models (src/models/coin.py)\<close>

text \<open>
  \<^verbatim>\<open>
  class Category(BaseModel):
      id: str = ""
      name: str

      @classmethod
      def from_coingecko(cls, data):
          return cls(id=data.get("category_id", ""), name=data.get("name", ""))
  \<close>
  Constructing a pydantic model validates its fields: a value given for a \<open>str\<close> field
  that is not a string raises a ValidationError. Of its message only the header line is
  modelled.
\<close>

record Category =
  id' :: string
  name :: string

fun str_field_errors :: "json \<Rightarrow> nat" where
  "str_field_errors (JStr s) = 0"
| "str_field_errors v = 1"

definition validation_error :: "nat \<Rightarrow> exc" where
  "validation_error n =
     PyError ((if n = 1 then ''1 validation error'' else ''2 validation errors'')
              @ '' for Category'')"

fun Category_init :: "json \<Rightarrow> json \<Rightarrow> exc + Category" where
  "Category_init (JStr i) (JStr n) = Inr \<lparr>id' = i, name = n\<rparr>"
| "Category_init i n = Inl (validation_error (str_field_errors i + str_field_errors n))"

definition from_coingecko :: "(string \<times> json) list \<Rightarrow> exc + Category" where
  "from_coingecko data =
     Category_init (dict_get data (Some ''category_id'') (JStr []))
                   (dict_get data (Some ''name'') (JStr []))"

section \<open>The gateway (src/services/coingecko_service.py)\<close>

text \<open>
  The configuration is read from the environment once; \<open>os.getenv\<close> gives \<open>None\<close> for a
  variable that is not set.
\<close>

record config =
  base_url :: "string option"
  default_currency :: "string option"
  api_key :: "string option"

definition opt_str :: "string option \<Rightarrow> json" where
  "opt_str s = (case s of None \<Rightarrow> JNull | Some v \<Rightarrow> JStr v)"

definition str_of_opt :: "string option \<Rightarrow> string" where
  "str_of_opt s = (case s of None \<Rightarrow> ''None'' | Some v \<Rightarrow> v)"

text \<open>
  One call \<open>requests.get(url, params=..., headers=..., timeout=200)\<close>, and what it, the
  following \<open>raise_for_status()\<close> and \<open>json()\<close> come to:
  \<^item> \<open>Response v\<close>: the status is no error and the body decodes to \<open>v\<close>;
  \<^item> \<open>HTTPError s m\<close>: \<open>raise_for_status\<close> raised for the status \<open>s\<close>, \<open>m\<close> is \<open>str(e)\<close>;
  \<^item> \<open>RequestException m\<close>: any other exception of \<open>requests\<close> (connection, timeout);
  \<^item> \<open>OtherException m\<close>: an exception that is none of \<open>requests\<close>.
  The provider is a function of the request. An operation never issues the same request
  twice, so this is no loss of generality within one operation.
\<close>

record request =
  url :: string
  params :: "(string \<times> json) list option"
  headers :: "(string \<times> string option) list"
  timeout :: nat

datatype outcome =
    Response json
  | HTTPError int string
  | RequestException string
  | OtherException string

type_synonym upstream = "request \<Rightarrow> outcome"

definition mk_request :: "config \<Rightarrow> string \<Rightarrow> (string \<times> json) list option \<Rightarrow> request" where
  "mk_request cfg endpoint ps =
     \<lparr>url = str_of_opt (base_url cfg) @ ''/'' @ endpoint,
      params = ps,
      headers = [(''X-CG-Demo-API-Key'', api_key cfg)],
      timeout = 200\<rparr>"

text \<open>
  \<^verbatim>\<open>
  def _make_request(self, endpoint, params=None):
      try:
          response = requests.get(f"{self.base_url}/{endpoint}", params=params,
                                  headers=self.headers, timeout=200)
          response.raise_for_status()
          return response.json()
      except requests.exceptions.HTTPError as e:
          if e.response.status_code == 429:
              raise HTTPException(status_code=429,
                  detail="Rate limit exceeded. Please try again later.") from e
          raise HTTPException(status_code=e.response.status_code, detail=str(e)) from e
      except requests.RequestException as e:
          raise HTTPException(status_code=503,
              detail=f"Error fetching data from CoinGecko: {str(e)}") from e
  \<close>
  The list of the requests issued so far is threaded through every operation.
\<close>

definition make_request ::
  "config \<Rightarrow> upstream \<Rightarrow> string \<Rightarrow> (string \<times> json) list option \<Rightarrow> request list
   \<Rightarrow> (exc + json) \<times> request list" where
  "make_request cfg up endpoint ps calls =
     (let req = mk_request cfg endpoint ps;
          result =
            (case up req of
               Response v \<Rightarrow> Inr v
             | HTTPError s m \<Rightarrow>
                 (if s = 429
                  then Inl (HTTPException 429 ''Rate limit exceeded. Please try again later.'')
                  else Inl (HTTPException s m))
             | RequestException m \<Rightarrow>
                 Inl (HTTPException 503 (''Error fetching data from CoinGecko: '' @ m))
             | OtherException m \<Rightarrow> Inl (PyError m))
      in (result, calls @ [req]))"

text \<open>
  The two handlers that close every operation:
  \<^verbatim>\<open>
  except HTTPException as e:
      raise e from e
  except Exception as e:
      raise HTTPException(status_code=..., detail=...) from e
  \<close>
  \<open>handle status mk r\<close> leaves a result and an HTTPException as they are and turns any
  other exception into \<open>HTTPException status (mk (str e))\<close>.
\<close>

definition handle :: "int \<Rightarrow> (string \<Rightarrow> string) \<Rightarrow> exc + 'a \<Rightarrow> exc + 'a" where
  "handle status mk r =
     (case r of
        Inr v \<Rightarrow> Inr v
      | Inl (HTTPException s d) \<Rightarrow> Inl (HTTPException s d)
      | Inl (PyError m) \<Rightarrow> Inl (HTTPException status (mk m)))"

text \<open>The reduced coin of \<open>get_coins_list\<close> and \<open>get_coins_by_category\<close>; \<open>coin.get\<close> raises when \<open>coin\<close> is no dict.\<close>

definition coin_keys :: "string list" where
  "coin_keys = [''id'', ''symbol'', ''name'', ''current_price'', ''market_cap'',
                ''market_cap_rank'', ''price_change_24h'', ''price_change_percentage_24h'']"

definition coin_fields :: "(string \<times> json) list \<Rightarrow> json" where
  "coin_fields coin = JDict (map (\<lambda>k. (k, dict_get coin (Some k) JNull)) coin_keys)"

fun reshape_coin :: "json \<Rightarrow> exc + json" where
  "reshape_coin (JDict coin) = Inr (coin_fields coin)"
| "reshape_coin v = Inl (no_attribute_get v)"

text \<open>
  \<^verbatim>\<open>
  def get_coins_list(self, page=1, per_page=10):
      try:
          params = {"vs_currency": self.default_currency, "order": "market_cap_desc",
                    "per_page": per_page + 1, "page": page, "sparkline": False}
          data = self._make_request("coins/markets", params)
          if not data:
              return []
          data = data[:per_page]
          return [{"id": coin.get("id"), ...} for coin in data]
      except HTTPException as e:
          raise e from e
      except Exception as e:
          raise HTTPException(status_code=500,
                              detail=f"Internal server error: {str(e)}") from e
  \<close>
\<close>

definition coins_list_params :: "config \<Rightarrow> int \<Rightarrow> int \<Rightarrow> (string \<times> json) list" where
  "coins_list_params cfg page per_page =
     [(''vs_currency'', opt_str (default_currency cfg)),
      (''order'', JStr ''market_cap_desc''),
      (''per_page'', JInt (per_page + 1)),
      (''page'', JInt page),
      (''sparkline'', JBool False)]"

definition get_coins_list ::
  "config \<Rightarrow> upstream \<Rightarrow> int \<Rightarrow> int \<Rightarrow> request list \<Rightarrow> (exc + json list) \<times> request list" where
  "get_coins_list cfg up page per_page calls =
     (let (r, calls1) =
            make_request cfg up ''coins/markets'' (Some (coins_list_params cfg page per_page)) calls;
          body =
            (case r of
               Inl e \<Rightarrow> Inl e
             | Inr data \<Rightarrow>
                 (if \<not> truthy data then Inr []
                  else bind_exc (slice_to data per_page)
                         (\<lambda>data1. bind_exc (py_iter data1) (map_exc reshape_coin))))
      in (handle 500 (\<lambda>m. ''Internal server error: '' @ m) body, calls1))"

text \<open>
  \<^verbatim>\<open>
  def get_coin_categories(self):
      try:
          data = self._make_request("coins/categories/list")
          if not isinstance(data, list):
              return []
          categories = []
          for category in data:
              if isinstance(category, dict):
                  categories.append(Category.from_coingecko(category))
          return categories
      except HTTPException as e: ...
      except Exception as e:
          raise HTTPException(status_code=500,
                              detail=f"Internal server error: {str(e)}") from e
  \<close>
\<close>

text \<open>The entries of a list that pass \<open>isinstance(category, dict)\<close>, in their order.\<close>

fun dict_entries :: "json list \<Rightarrow> (string \<times> json) list list" where
  "dict_entries [] = []"
| "dict_entries (JDict d # rest) = d # dict_entries rest"
| "dict_entries (v # rest) = dict_entries rest"

fun collect_categories :: "json list \<Rightarrow> Category list \<Rightarrow> exc + Category list" where
  "collect_categories [] categories = Inr categories"
| "collect_categories (JDict d # rest) categories =
     (case from_coingecko d of
        Inl e \<Rightarrow> Inl e
      | Inr c \<Rightarrow> collect_categories rest (categories @ [c]))"
| "collect_categories (v # rest) categories = collect_categories rest categories"

definition get_coin_categories ::
  "config \<Rightarrow> upstream \<Rightarrow> request list \<Rightarrow> (exc + Category list) \<times> request list" where
  "get_coin_categories cfg up calls =
     (let (r, calls1) = make_request cfg up ''coins/categories/list'' None calls;
          body =
            (case r of
               Inl e \<Rightarrow> Inl e
             | Inr data \<Rightarrow>
                 (case data of
                    JList entries \<Rightarrow> collect_categories entries []
                  | _ \<Rightarrow> Inr []))
      in (handle 500 (\<lambda>m. ''Internal server error: '' @ m) body, calls1))"

text \<open>
  \<^verbatim>\<open>
  def get_coin_by_id(self, coin_id):
      params = {"vs_currency": self.default_currency, "localization": False,
                "tickers": False, "market_data": True, "community_data": False,
                "developer_data": False, "sparkline": False}
      try:
          data = self._make_request(f"coins/{coin_id}", params)
          return {
              "id": data.get("id"), "symbol": data.get("symbol"), "name": data.get("name"),
              "current_price": data.get("market_data", {}).get("current_price", {})
                                   .get(self.default_currency),
              "market_cap": data.get("market_data", {}).get("market_cap", {})
                                .get(self.default_currency),
              "market_cap_rank": data.get("market_cap_rank"),
              "price_change_24h": data.get("market_data", {}).get("price_change_24h"),
              "price_change_percentage_24h":
                  data.get("market_data", {}).get("price_change_percentage_24h"),
              "description": data.get("description"),
              "categories": data.get("categories"),
              "links": {
                  "homepage": data.get("links", {}).get("homepage", []),
                  "blockchain_site": data.get("links", {}).get("blockchain_site", []),
                  "official_forum_url": data.get("links", {}).get("official_forum_url", []),
              },
          }
      except HTTPException as e:
          raise e from e
      except Exception as e:
          raise HTTPException(status_code=404, detail=f"Coin not found: {coin_id}") from e
  \<close>
  The entries of the returned dict are evaluated in the order they are written.
\<close>

definition coin_params :: "config \<Rightarrow> (string \<times> json) list" where
  "coin_params cfg =
     [(''vs_currency'', opt_str (default_currency cfg)),
      (''localization'', JBool False),
      (''tickers'', JBool False),
      (''market_data'', JBool True),
      (''community_data'', JBool False),
      (''developer_data'', JBool False),
      (''sparkline'', JBool False)]"

definition coin_detail_paths :: "config \<Rightarrow> (string \<times> (string option \<times> json) list) list" where
  "coin_detail_paths cfg =
     [(''id'', [(Some ''id'', JNull)]),
      (''symbol'', [(Some ''symbol'', JNull)]),
      (''name'', [(Some ''name'', JNull)]),
      (''current_price'', [(Some ''market_data'', JDict []), (Some ''current_price'', JDict []),
                           (default_currency cfg, JNull)]),
      (''market_cap'', [(Some ''market_data'', JDict []), (Some ''market_cap'', JDict []),
                        (default_currency cfg, JNull)]),
      (''market_cap_rank'', [(Some ''market_cap_rank'', JNull)]),
      (''price_change_24h'', [(Some ''market_data'', JDict []), (Some ''price_change_24h'', JNull)]),
      (''price_change_percentage_24h'',
         [(Some ''market_data'', JDict []), (Some ''price_change_percentage_24h'', JNull)]),
      (''description'', [(Some ''description'', JNull)]),
      (''categories'', [(Some ''categories'', JNull)])]"

definition links_paths :: "(string \<times> (string option \<times> json) list) list" where
  "links_paths =
     [(''homepage'', [(Some ''links'', JDict []), (Some ''homepage'', JList [])]),
      (''blockchain_site'', [(Some ''links'', JDict []), (Some ''blockchain_site'', JList [])]),
      (''official_forum_url'',
         [(Some ''links'', JDict []), (Some ''official_forum_url'', JList [])])]"

definition build_dict ::
  "json \<Rightarrow> (string \<times> (string option \<times> json) list) list \<Rightarrow> exc + (string \<times> json) list" where
  "build_dict data entries =
     map_exc (\<lambda>(k, path). bind_exc (get_path data path) (\<lambda>v. Inr (k, v))) entries"

definition get_coin_by_id ::
  "config \<Rightarrow> upstream \<Rightarrow> string \<Rightarrow> request list \<Rightarrow> (exc + json) \<times> request list" where
  "get_coin_by_id cfg up coin_id calls =
     (let (r, calls1) = make_request cfg up (''coins/'' @ coin_id) (Some (coin_params cfg)) calls;
          body =
            (case r of
               Inl e \<Rightarrow> Inl e
             | Inr data \<Rightarrow>
                 bind_exc (build_dict data (coin_detail_paths cfg))
                   (\<lambda>fields. bind_exc (build_dict data links_paths)
                      (\<lambda>links. Inr (JDict (fields @ [(''links'', JDict links)])))))
      in (handle 404 (\<lambda>m. ''Coin not found: '' @ coin_id) body, calls1))"

text \<open>
  \<^verbatim>\<open>
  def get_coins_by_category(self, category_id, page=1, per_page=10):
      try:
          category_data = self._make_request(f"coins/categories/{category_id}")
          if not category_data:
              return {"category": category_id, "coins": []}
          params = {"vs_currency": self.default_currency, "category": category_id,
                    "order": "market_cap_desc", "per_page": per_page, "page": page,
                    "sparkline": False}
          coins_data = self._make_request("coins/markets", params)
          category_coins = [{"id": coin.get("id"), ...} for coin in coins_data]
          return {"category": category_data.get("name", category_id),
                  "coins": category_coins}
      except HTTPException as e:
          raise e from e
      except Exception as e:
          raise HTTPException(status_code=500,
                              detail=f"Error fetching category coins: {str(e)}") from e
  \<close>
\<close>

definition category_params :: "config \<Rightarrow> string \<Rightarrow> int \<Rightarrow> int \<Rightarrow> (string \<times> json) list" where
  "category_params cfg category_id page per_page =
     [(''vs_currency'', opt_str (default_currency cfg)),
      (''category'', JStr category_id),
      (''order'', JStr ''market_cap_desc''),
      (''per_page'', JInt per_page),
      (''page'', JInt page),
      (''sparkline'', JBool False)]"

definition get_coins_by_category ::
  "config \<Rightarrow> upstream \<Rightarrow> string \<Rightarrow> int \<Rightarrow> int \<Rightarrow> request list
   \<Rightarrow> (exc + json) \<times> request list" where
  "get_coins_by_category cfg up category_id page per_page calls =
     (let handler = handle 500 (\<lambda>m. ''Error fetching category coins: '' @ m);
          (r, calls1) = make_request cfg up (''coins/categories/'' @ category_id) None calls
      in (case r of
            Inl e \<Rightarrow> (handler (Inl e), calls1)
          | Inr category_data \<Rightarrow>
              (if \<not> truthy category_data
               then (Inr (JDict [(''category'', JStr category_id), (''coins'', JList [])]), calls1)
               else
                 (let (r2, calls2) =
                        make_request cfg up ''coins/markets''
                          (Some (category_params cfg category_id page per_page)) calls1;
                      body =
                        (case r2 of
                           Inl e \<Rightarrow> Inl e
                         | Inr coins_data \<Rightarrow>
                             bind_exc (bind_exc (py_iter coins_data) (map_exc reshape_coin))
                               (\<lambda>category_coins.
                                  bind_exc (attr_get category_data (Some ''name'') (JStr category_id))
                                    (\<lambda>category_name.
                                       Inr (JDict [(''category'', category_name),
                                                   (''coins'', JList category_coins)]))))
                  in (handler body, calls2)))))"

section \<open>The endpoints (src/main.py)\<close>

definition MAX_PER_PAGE :: int where
  "MAX_PER_PAGE = 100"

text \<open>
  \<^verbatim>\<open>
  async def list_coins(page, per_page):
      page, per_page = validate_pagination_params(page, per_page, MAX_PER_PAGE)
      coins = coingecko_service.get_coins_list(page, per_page)
      total = (page * per_page) + per_page if coins else page * per_page
      return {"page": page, "per_page": per_page, "total": total, "items": coins}
  \<close>
\<close>

definition list_coins ::
  "config \<Rightarrow> upstream \<Rightarrow> int \<Rightarrow> int \<Rightarrow> request list
   \<Rightarrow> (exc + json paginated) \<times> request list" where
  "list_coins cfg up page per_page calls =
     (let (page1, per_page1) = validate_pagination_params page per_page MAX_PER_PAGE;
          (r, calls1) = get_coins_list cfg up page1 per_page1 calls
      in (case r of
            Inl e \<Rightarrow> (Inl e, calls1)
          | Inr coins \<Rightarrow>
              (let total = (if coins \<noteq> [] then (page1 * per_page1) + per_page1
                            else page1 * per_page1)
               in (Inr \<lparr>resp_page = page1, resp_per_page = per_page1, resp_total = total,
                        resp_items = coins\<rparr>, calls1))))"

text \<open>
  \<^verbatim>\<open>
  async def get_coins_by_category(category_id, page, per_page):
      page, per_page = validate_pagination_params(page, per_page, MAX_PER_PAGE)
      try:
          return coingecko_service.get_coins_by_category(category_id, page, per_page)
      except Exception as e:
          raise e
  \<close>
  The endpoint has the name of the gateway's method; here it is \<open>category_coins_endpoint\<close>.
\<close>

definition category_coins_endpoint ::
  "config \<Rightarrow> upstream \<Rightarrow> string \<Rightarrow> int \<Rightarrow> int \<Rightarrow> request list
   \<Rightarrow> (exc + json) \<times> request list" where
  "category_coins_endpoint cfg up category_id page per_page calls =
     (let (page1, per_page1) = validate_pagination_params page per_page MAX_PER_PAGE
      in get_coins_by_category cfg up category_id page1 per_page1 calls)"

section \<open>A configuration for concrete runs\<close>

text \<open>The configuration of the repository's tests: the public base URL and the currency \<open>cad\<close>.\<close>

definition test_config :: config where
  "test_config = \<lparr>base_url = Some ''https://api.coingecko.com/api/v3'',
                   default_currency = Some ''cad'', api_key = Some ''demo-key''\<rparr>"

text \<open>A coin payload as in the repository's tests, with prices in two currencies and one link.\<close>

definition bitcoin_payload :: json where
  "bitcoin_payload =
     JDict [(''id'', JStr ''bitcoin''), (''symbol'', JStr ''btc''), (''name'', JStr ''Bitcoin''),
            (''market_data'',
               JDict [(''current_price'', JDict [(''usd'', JFloat 36000), (''cad'', JFloat 50000)]),
                      (''market_cap'', JDict [(''cad'', JFloat 1000000000)]),
                      (''price_change_24h'', JFloat 1000),
                      (''price_change_percentage_24h'', JFloat (5 / 2))]),
            (''links'', JDict [(''homepage'', JList [JStr ''https://bitcoin.org''])])]"

section \<open>Properties of the pagination utilities\<close>

lemma py_slice_nonneg:
  "0 \<le> start \<Longrightarrow> 0 \<le> len \<Longrightarrow>
   py_slice xs start (start + len) = take (nat len) (drop (nat start) xs)"
proof -
  assume s: "0 \<le> start" and l: "0 \<le> len"
  let ?n = "length xs"
  have lo: "slice_index ?n start = min (nat start) ?n"
    using s by (simp add: slice_index_def)
  have hi: "slice_index ?n (start + len) = min (nat start + nat len) ?n"
    using s l by (simp add: slice_index_def nat_add_distrib)
  show ?thesis
  proof (cases "nat start \<le> ?n")
    case True
    then have "take (min (nat start + nat len) ?n - nat start) (drop (nat start) xs)
               = take (nat len) (drop (nat start) xs)"
      by (simp add: min_def)
    with True show ?thesis
      by (simp add: py_slice_def Let_def lo hi min_absorb1)
  next
    case False
    then show ?thesis
      by (simp add: py_slice_def Let_def lo hi)
  qed
qed

lemma paginate_items:
  assumes "1 \<le> page" and "0 \<le> per_page"
  shows "resp_items (paginate_response xs page per_page)
         = take (nat per_page) (drop (nat ((page - 1) * per_page)) xs)"
proof -
  have s: "0 \<le> (page - 1) * per_page"
    using assms by simp
  show ?thesis
  proof (cases "(page - 1) * per_page < int (length xs)")
    case True
    then show ?thesis
      using py_slice_nonneg [OF s assms(2), of xs]
      by (simp add: paginate_response_def Let_def)
  next
    case False
    then have "length xs \<le> nat ((page - 1) * per_page)"
      by linarith
    with False show ?thesis
      by (simp add: paginate_response_def Let_def)
  qed
qed

lemma paginate_total: "resp_total (paginate_response xs page per_page) = int (length xs)"
  by (simp add: paginate_response_def Let_def)

lemma paginate_empty_iff:
  assumes "1 \<le> page" and "1 \<le> per_page"
  shows "(resp_items (paginate_response xs page per_page) = [])
         = (int (length xs) \<le> (page - 1) * per_page)"
proof -
  have s: "0 \<le> (page - 1) * per_page" using assms by simp
  have "resp_items (paginate_response xs page per_page)
         = take (nat per_page) (drop (nat ((page - 1) * per_page)) xs)"
    using assms by (simp add: paginate_items)
  moreover have "0 < nat per_page" using assms by simp
  ultimately show ?thesis using s by (auto simp: take_eq_Nil)
qed

lemma pages_upto_take:
  assumes "1 \<le> per_page"
  shows "pages_upto xs per_page n = take (n * nat per_page) xs"
proof (induction n)
  case 0
  show ?case by (simp add: pages_upto_def)
next
  case (Suc n)
  have st: "nat ((int n + 1 - 1) * per_page) = n * nat per_page"
    using assms by (simp add: nat_mult_distrib)
  have "pages_upto xs per_page (Suc n)
        = pages_upto xs per_page n @ resp_items (paginate_response xs (int n + 1) per_page)"
    by (simp add: pages_upto_def)
  also have "\<dots> = take (n * nat per_page) xs @ take (nat per_page) (drop (n * nat per_page) xs)"
    using assms Suc.IH paginate_items [of "int n + 1" per_page xs] st by simp
  also have "\<dots> = take (n * nat per_page + nat per_page) xs"
    by (simp add: take_add)
  finally show ?case by (simp add: add.commute)
qed

text \<open>
  Claim C1. With \<open>max_per_page = 100\<close> the normalizer returns \<open>(max page 1, p)\<close>, where
  \<open>p\<close> is 10 when \<open>per_page < 1\<close> (the default, not a clamp to 1) and
  \<open>min per_page 100\<close> otherwise. It is a total function of three integers, so no input
  raises, and the pair it returns satisfies \<open>page \<ge> 1\<close> and \<open>1 \<le> per_page \<le> 100\<close>.
\<close>

theorem validate_pagination_params_normalizes:
  "validate_pagination_params page per_page 100
     = (max page 1, if per_page < 1 then 10 else min per_page 100)
   \<and> 1 \<le> fst (validate_pagination_params page per_page 100)
   \<and> 1 \<le> snd (validate_pagination_params page per_page 100)
   \<and> snd (validate_pagination_params page per_page 100) \<le> 100"
  by (simp add: validate_pagination_params_def Let_def)

text \<open>
  Claim C2. For a normalized \<open>(page, per_page)\<close> the slicing helper returns the window of
  the sequence that starts at index \<open>(page - 1) * per_page\<close> and holds at most \<open>per_page\<close>
  items, which is empty when the start index is at or beyond the length; \<open>total\<close> is the
  length of the whole sequence whatever the page. For 25 items, page 3 of size 10 is the 5
  items from index 20 on, and page 4 is empty.
\<close>

theorem paginate_response_window:
  assumes "1 \<le> page" and "1 \<le> per_page"
  shows "resp_items (paginate_response xs page per_page)
           = take (nat per_page) (drop (nat ((page - 1) * per_page)) xs)
         \<and> (int (length xs) \<le> (page - 1) * per_page
              \<longrightarrow> resp_items (paginate_response xs page per_page) = [])
         \<and> resp_total (paginate_response xs page per_page) = int (length xs)
         \<and> (length xs = 25
              \<longrightarrow> resp_items (paginate_response xs 3 10) = drop 20 xs
                \<and> length (resp_items (paginate_response xs 3 10)) = 5
                \<and> resp_items (paginate_response xs 4 10) = []
                \<and> resp_total (paginate_response xs 3 10) = 25
                \<and> resp_total (paginate_response xs 4 10) = 25)"
proof -
  have a: "resp_items (paginate_response xs page per_page)
           = take (nat per_page) (drop (nat ((page - 1) * per_page)) xs)"
    using assms by (simp add: paginate_items)
  have b: "int (length xs) \<le> (page - 1) * per_page
            \<longrightarrow> resp_items (paginate_response xs page per_page) = []"
    using assms by (simp add: paginate_empty_iff)
  have c: "length xs = 25
              \<longrightarrow> resp_items (paginate_response xs 3 10) = drop 20 xs
                \<and> length (resp_items (paginate_response xs 3 10)) = 5
                \<and> resp_items (paginate_response xs 4 10) = []
                \<and> resp_total (paginate_response xs 3 10) = 25
                \<and> resp_total (paginate_response xs 4 10) = 25"
    by (simp add: paginate_items paginate_total)
  from a b c show ?thesis by (simp add: paginate_total)
qed

theorem paginate_response_window_witness:
  "(1::int) \<le> 3 \<and> (1::int) \<le> 10 \<and> length [0..<25] = 25
   \<and> int (length [0..<25]) \<le> (4 - 1) * 10
   \<and> resp_items (paginate_response [0..<25] 3 10) = [20, 21, 22, 23, 24]
   \<and> resp_items (paginate_response [0..<25] 4 10) = []
   \<and> resp_total (paginate_response [0..<25] 4 10) = 25"
  using paginate_response_window [of 3 10 "[0..<25]"]
        paginate_response_window [of 4 10 "[0..<25]"]
  by (simp add: upt_rec)

text \<open>
  Claim C10. For \<open>per_page \<ge> 1\<close> the pages 1, 2, 3, ... of the slicing helper partition the
  list: the items of the first \<open>n\<close> pages, one after the other, are the first
  \<open>n * per_page\<close> elements of the list, so they are the whole list, each element once and
  in order, as soon as \<open>n * per_page\<close> reaches its length. A page is empty exactly when its
  start index is at or beyond the length, so every page after an empty one is empty too.
\<close>

theorem paginate_response_partition:
  assumes "1 \<le> per_page"
  shows "pages_upto xs per_page n = take (n * nat per_page) xs
         \<and> (length xs \<le> n * nat per_page \<longrightarrow> pages_upto xs per_page n = xs)
         \<and> (\<forall>p q. 1 \<le> p \<and> p \<le> q \<and> resp_items (paginate_response xs p per_page) = []
                \<longrightarrow> resp_items (paginate_response xs q per_page) = [])"
proof -
  have a: "pages_upto xs per_page n = take (n * nat per_page) xs"
    using assms by (rule pages_upto_take)
  have c: "resp_items (paginate_response xs q per_page) = []"
    if "1 \<le> p" "p \<le> q" "resp_items (paginate_response xs p per_page) = []" for p q
  proof -
    have "int (length xs) \<le> (p - 1) * per_page"
      using that assms by (simp add: paginate_empty_iff)
    moreover have "(p - 1) * per_page \<le> (q - 1) * per_page"
      using that assms by (simp add: mult_right_mono)
    ultimately have "int (length xs) \<le> (q - 1) * per_page" by linarith
    then show ?thesis
      using that assms by (simp add: paginate_empty_iff)
  qed
  from a c show ?thesis by auto
qed

theorem paginate_response_partition_witness:
  "(1::int) \<le> 2 \<and> length [10, 20, 30, 40, 50::nat] \<le> 3 * nat 2
   \<and> resp_items (paginate_response [10, 20, 30, 40, 50::nat] 1 2) = [10, 20]
   \<and> resp_items (paginate_response [10, 20, 30, 40, 50::nat] 2 2) = [30, 40]
   \<and> resp_items (paginate_response [10, 20, 30, 40, 50::nat] 3 2) = [50]
   \<and> resp_items (paginate_response [10, 20, 30, 40, 50::nat] 4 2) = []
   \<and> pages_upto [10, 20, 30, 40, 50::nat] 2 3 = [10, 20, 30, 40, 50]
   \<and> resp_items (paginate_response [10, 20, 30, 40, 50::nat] 7 2) = []"
  using paginate_response_partition [of 2 "[10, 20, 30, 40, 50::nat]" 3]
  by (simp add: paginate_items)

section \<open>Properties of the gateway\<close>

subsection \<open>Requests and the handlers\<close>

lemma make_request_Response:
  "up (mk_request cfg endpoint ps) = Response v \<Longrightarrow>
   make_request cfg up endpoint ps calls = (Inr v, calls @ [mk_request cfg endpoint ps])"
  by (simp add: make_request_def Let_def)

lemma make_request_HTTPError:
  "up (mk_request cfg endpoint ps) = HTTPError s m \<Longrightarrow>
   make_request cfg up endpoint ps calls
     = (Inl (HTTPException s (if s = 429 then ''Rate limit exceeded. Please try again later.'' else m)),
        calls @ [mk_request cfg endpoint ps])"
  by (simp add: make_request_def Let_def)

lemma make_request_RequestException:
  "up (mk_request cfg endpoint ps) = RequestException m \<Longrightarrow>
   make_request cfg up endpoint ps calls
     = (Inl (HTTPException 503 (''Error fetching data from CoinGecko: '' @ m)),
        calls @ [mk_request cfg endpoint ps])"
  by (simp add: make_request_def Let_def)

lemma make_request_OtherException:
  "up (mk_request cfg endpoint ps) = OtherException m \<Longrightarrow>
   make_request cfg up endpoint ps calls = (Inl (PyError m), calls @ [mk_request cfg endpoint ps])"
  by (simp add: make_request_def Let_def)

lemma get_coins_list_error:
  assumes "fst (make_request cfg up ''coins/markets''
                  (Some (coins_list_params cfg page per_page)) calls) = Inl (HTTPException s d)"
  shows "fst (get_coins_list cfg up page per_page calls) = Inl (HTTPException s d)"
  using assms by (auto simp add: get_coins_list_def handle_def split: prod.splits)

lemma get_coin_categories_error:
  assumes "fst (make_request cfg up ''coins/categories/list'' None calls) = Inl (HTTPException s d)"
  shows "fst (get_coin_categories cfg up calls) = Inl (HTTPException s d)"
  using assms by (auto simp add: get_coin_categories_def handle_def split: prod.splits)

lemma get_coin_by_id_error:
  assumes "fst (make_request cfg up (''coins/'' @ coin_id) (Some (coin_params cfg)) calls)
           = Inl (HTTPException s d)"
  shows "fst (get_coin_by_id cfg up coin_id calls) = Inl (HTTPException s d)"
  using assms by (auto simp add: get_coin_by_id_def handle_def split: prod.splits)

lemma get_coins_by_category_error1:
  assumes "fst (make_request cfg up (''coins/categories/'' @ category_id) None calls)
           = Inl (HTTPException s d)"
  shows "fst (get_coins_by_category cfg up category_id page per_page calls)
         = Inl (HTTPException s d)"
  using assms by (auto simp add: get_coins_by_category_def Let_def handle_def split: prod.splits)

lemma get_coins_by_category_error2:
  assumes "up (mk_request cfg (''coins/categories/'' @ category_id) None) = Response v"
    and "truthy v"
    and "fst (make_request cfg up ''coins/markets''
                (Some (category_params cfg category_id page per_page))
                (calls @ [mk_request cfg (''coins/categories/'' @ category_id) None]))
         = Inl (HTTPException s d)"
  shows "fst (get_coins_by_category cfg up category_id page per_page calls)
         = Inl (HTTPException s d)"
  using assms
  by (auto simp add: get_coins_by_category_def Let_def make_request_Response handle_def split: prod.splits)

lemma attr_get_Inl: "attr_get v key dflt = Inl e \<Longrightarrow> \<exists>m. e = PyError m"
  by (cases v) (auto simp: no_attribute_get_def)

lemma get_path_Inl: "get_path v steps = Inl e \<Longrightarrow> \<exists>m. e = PyError m"
proof (induction v steps rule: get_path.induct)
  case (1 v)
  then show ?case by simp
next
  case (2 v key dflt steps)
  then show ?case
    by (cases "attr_get v key dflt") (auto dest: attr_get_Inl)
qed

lemma map_exc_Inl:
  assumes "map_exc f xs = Inl e"
  shows "\<exists>x \<in> set xs. f x = Inl e"
  using assms
  by (induction xs) (auto split: sum.splits)

lemma build_dict_Inl: "build_dict data entries = Inl e \<Longrightarrow> \<exists>m. e = PyError m"
  by (auto simp: build_dict_def bind_exc_def dest!: map_exc_Inl get_path_Inl split: sum.splits)

lemma get_coin_by_id_Response:
  assumes "up (mk_request cfg (''coins/'' @ coin_id) (Some (coin_params cfg))) = Response data"
    and "fst (get_coin_by_id cfg up coin_id calls) = Inl e"
  shows "e = HTTPException 404 (''Coin not found: '' @ coin_id)"
proof -
  let ?body = "bind_exc (build_dict data (coin_detail_paths cfg))
                 (\<lambda>fields. bind_exc (build_dict data links_paths)
                    (\<lambda>links. Inr (JDict (fields @ [(''links'', JDict links)]))))"
  have r: "fst (get_coin_by_id cfg up coin_id calls)
           = handle 404 (\<lambda>m. ''Coin not found: '' @ coin_id) ?body"
    using assms(1) by (simp add: get_coin_by_id_def make_request_Response)
  have "\<exists>m. e' = PyError m" if "?body = Inl e'" for e'
    using that by (auto simp: bind_exc_def split: sum.splits dest: build_dict_Inl)
  then show ?thesis
    using assms(2) unfolding r
    by (cases ?body) (auto simp: handle_def)
qed

subsection \<open>The mapping of upstream errors\<close>

lemma op_HTTPError:
  assumes "up (mk_request cfg endpoint ps) = HTTPError s m"
  shows "fst (make_request cfg up endpoint ps calls)
         = Inl (HTTPException s (if s = 429 then ''Rate limit exceeded. Please try again later.''
                                 else m))"
  using assms by (simp add: make_request_HTTPError)

lemma op_RequestException:
  assumes "up (mk_request cfg endpoint ps) = RequestException m"
  shows "fst (make_request cfg up endpoint ps calls)
         = Inl (HTTPException 503 (''Error fetching data from CoinGecko: '' @ m))"
  using assms by (simp add: make_request_RequestException)

text \<open>
  Claim C5. In every operation of the gateway an HTTP error of the provider becomes an
  HTTPException of the same status: for the status 429 the rate-limited error, with the
  detail \<open>Rate limit exceeded. Please try again later.\<close>, for any other status with the
  provider's message as detail; a transport failure becomes an HTTPException 503. This holds
  for the one request of \<open>get_coins_list\<close>, \<open>get_coin_categories\<close> and \<open>get_coin_by_id\<close> and
  for both requests of \<open>get_coins_by_category\<close>. The detail of the 429 contains the phrase
  \<open>rate limit\<close> up to letter case: it is written \<open>Rate limit\<close> there.
\<close>

theorem gateway_error_mapping:
  "(up (mk_request cfg ''coins/markets'' (Some (coins_list_params cfg page per_page)))
      = HTTPError s m
    \<longrightarrow> fst (get_coins_list cfg up page per_page calls)
        = Inl (HTTPException s (if s = 429 then ''Rate limit exceeded. Please try again later.''
                                else m)))
   \<and> (up (mk_request cfg ''coins/markets'' (Some (coins_list_params cfg page per_page)))
      = RequestException m
    \<longrightarrow> fst (get_coins_list cfg up page per_page calls)
        = Inl (HTTPException 503 (''Error fetching data from CoinGecko: '' @ m)))
   \<and> (up (mk_request cfg ''coins/categories/list'' None) = HTTPError s m
    \<longrightarrow> fst (get_coin_categories cfg up calls)
        = Inl (HTTPException s (if s = 429 then ''Rate limit exceeded. Please try again later.''
                                else m)))
   \<and> (up (mk_request cfg ''coins/categories/list'' None) = RequestException m
    \<longrightarrow> fst (get_coin_categories cfg up calls)
        = Inl (HTTPException 503 (''Error fetching data from CoinGecko: '' @ m)))
   \<and> (up (mk_request cfg (''coins/'' @ coin_id) (Some (coin_params cfg))) = HTTPError s m
    \<longrightarrow> fst (get_coin_by_id cfg up coin_id calls)
        = Inl (HTTPException s (if s = 429 then ''Rate limit exceeded. Please try again later.''
                                else m)))
   \<and> (up (mk_request cfg (''coins/'' @ coin_id) (Some (coin_params cfg))) = RequestException m
    \<longrightarrow> fst (get_coin_by_id cfg up coin_id calls)
        = Inl (HTTPException 503 (''Error fetching data from CoinGecko: '' @ m)))
   \<and> (up (mk_request cfg (''coins/categories/'' @ category_id) None) = HTTPError s m
    \<longrightarrow> fst (get_coins_by_category cfg up category_id page per_page calls)
        = Inl (HTTPException s (if s = 429 then ''Rate limit exceeded. Please try again later.''
                                else m)))
   \<and> (up (mk_request cfg (''coins/categories/'' @ category_id) None) = RequestException m
    \<longrightarrow> fst (get_coins_by_category cfg up category_id page per_page calls)
        = Inl (HTTPException 503 (''Error fetching data from CoinGecko: '' @ m)))
   \<and> (up (mk_request cfg (''coins/categories/'' @ category_id) None) = Response v \<and> truthy v
      \<and> up (mk_request cfg ''coins/markets''
               (Some (category_params cfg category_id page per_page))) = HTTPError s m
    \<longrightarrow> fst (get_coins_by_category cfg up category_id page per_page calls)
        = Inl (HTTPException s (if s = 429 then ''Rate limit exceeded. Please try again later.''
                                else m)))
   \<and> (up (mk_request cfg (''coins/categories/'' @ category_id) None) = Response v \<and> truthy v
      \<and> up (mk_request cfg ''coins/markets''
               (Some (category_params cfg category_id page per_page))) = RequestException m
    \<longrightarrow> fst (get_coins_by_category cfg up category_id page per_page calls)
        = Inl (HTTPException 503 (''Error fetching data from CoinGecko: '' @ m)))
   \<and> contains_ignoring_case ''Rate limit exceeded. Please try again later.'' ''rate limit''
   \<and> sublist ''Rate limit'' ''Rate limit exceeded. Please try again later.''"
proof (intro conjI impI)
  show "contains_ignoring_case ''Rate limit exceeded. Please try again later.'' ''rate limit''"
    by (simp add: contains_ignoring_case_def lower_def sublist_Cons_right)
  show "sublist ''Rate limit'' ''Rate limit exceeded. Please try again later.''"
    by (simp add: sublist_Cons_right)
qed (erule conjE | rule get_coins_list_error get_coin_categories_error get_coin_by_id_error
       get_coins_by_category_error1 get_coins_by_category_error2
     | erule op_HTTPError op_RequestException | assumption)+


theorem gateway_error_mapping_witness:
  "fst (get_coins_list test_config (\<lambda>r. HTTPError 429 ''429 Client Error'') 1 10 [])
     = Inl (HTTPException 429 ''Rate limit exceeded. Please try again later.'')
   \<and> fst (get_coin_categories test_config (\<lambda>r. HTTPError 500 ''500 Server Error'') [])
     = Inl (HTTPException 500 ''500 Server Error'')
   \<and> fst (get_coin_by_id test_config (\<lambda>r. RequestException ''Network error'') ''bitcoin'' [])
     = Inl (HTTPException 503 ''Error fetching data from CoinGecko: Network error'')
   \<and> fst (get_coins_by_category test_config (\<lambda>r. HTTPError 404 ''404 Client Error'') ''defi'' 1 10 [])
     = Inl (HTTPException 404 ''404 Client Error'')
   \<and> truthy (JDict [(''name'', JStr ''DeFi'')])
   \<and> fst (get_coins_by_category test_config
            (\<lambda>r. if params r = None then Response (JDict [(''name'', JStr ''DeFi'')])
                  else HTTPError 429 ''429 Client Error'') ''defi'' 1 10 [])
     = Inl (HTTPException 429 ''Rate limit exceeded. Please try again later.'')
   \<and> contains_ignoring_case ''Rate limit exceeded. Please try again later.'' ''rate limit''"
  using gateway_error_mapping [of "\<lambda>r. HTTPError 429 ''429 Client Error''" test_config 1 10
          429 "''429 Client Error''" "[]"]
        gateway_error_mapping [of "\<lambda>r. HTTPError 500 ''500 Server Error''" test_config _ _
          500 "''500 Server Error''" "[]"]
        gateway_error_mapping [of "\<lambda>r. RequestException ''Network error''" test_config _ _
          _ "''Network error''" "[]" "''bitcoin''"]
        gateway_error_mapping [of "\<lambda>r. HTTPError 404 ''404 Client Error''" test_config 1 10
          404 "''404 Client Error''" "[]" _ "''defi''"]
        gateway_error_mapping [of "\<lambda>r. if params r = None then Response (JDict [(''name'', JStr ''DeFi'')])
                  else HTTPError 429 ''429 Client Error''" test_config 1 10
          429 "''429 Client Error''" "[]" _ "''defi''" "JDict [(''name'', JStr ''DeFi'')]"]
  by (simp add: mk_request_def)

subsection \<open>Failures of the coin lookup\<close>

lemma get_coin_by_id_OtherException:
  assumes "up (mk_request cfg (''coins/'' @ coin_id) (Some (coin_params cfg))) = OtherException m"
  shows "fst (get_coin_by_id cfg up coin_id calls)
         = Inl (HTTPException 404 (''Coin not found: '' @ coin_id))"
  using assms by (simp add: get_coin_by_id_def make_request_OtherException handle_def)

text \<open>
  Claim C6, as amended. In \<open>get_coin_by_id\<close> an exception that is no HTTPException is reported
  as HTTPException 404 with the detail \<open>Coin not found: <coin_id>\<close>: an exception of the call
  that is none of \<open>requests\<close>, and every failure of the reshaping of a payload. An HTTP error
  of the provider and a transport failure are re-raised as \<open>_make_request\<close> mapped them: with
  the provider's status (429 as rate limited) and with 503.
\<close>

theorem get_coin_by_id_failures:
  "(up (mk_request cfg (''coins/'' @ coin_id) (Some (coin_params cfg))) = OtherException m
    \<longrightarrow> fst (get_coin_by_id cfg up coin_id calls)
        = Inl (HTTPException 404 (''Coin not found: '' @ coin_id)))
   \<and> (up (mk_request cfg (''coins/'' @ coin_id) (Some (coin_params cfg))) = Response data
      \<and> fst (get_coin_by_id cfg up coin_id calls) = Inl e
    \<longrightarrow> e = HTTPException 404 (''Coin not found: '' @ coin_id))
   \<and> (up (mk_request cfg (''coins/'' @ coin_id) (Some (coin_params cfg))) = HTTPError s m
    \<longrightarrow> fst (get_coin_by_id cfg up coin_id calls)
        = Inl (HTTPException s (if s = 429 then ''Rate limit exceeded. Please try again later.''
                                else m)))
   \<and> (up (mk_request cfg (''coins/'' @ coin_id) (Some (coin_params cfg))) = RequestException m
    \<longrightarrow> fst (get_coin_by_id cfg up coin_id calls)
        = Inl (HTTPException 503 (''Error fetching data from CoinGecko: '' @ m)))"
proof (intro conjI impI)
  assume "up (mk_request cfg (''coins/'' @ coin_id) (Some (coin_params cfg))) = OtherException m"
  then show "fst (get_coin_by_id cfg up coin_id calls)
             = Inl (HTTPException 404 (''Coin not found: '' @ coin_id))"
    by (rule get_coin_by_id_OtherException)
next
  assume "up (mk_request cfg (''coins/'' @ coin_id) (Some (coin_params cfg))) = Response data
          \<and> fst (get_coin_by_id cfg up coin_id calls) = Inl e"
  then show "e = HTTPException 404 (''Coin not found: '' @ coin_id)"
    by (blast intro: get_coin_by_id_Response)
next
  assume "up (mk_request cfg (''coins/'' @ coin_id) (Some (coin_params cfg))) = HTTPError s m"
  then show "fst (get_coin_by_id cfg up coin_id calls)
        = Inl (HTTPException s (if s = 429 then ''Rate limit exceeded. Please try again later.''
                                else m))"
    by (intro get_coin_by_id_error op_HTTPError)
next
  assume "up (mk_request cfg (''coins/'' @ coin_id) (Some (coin_params cfg))) = RequestException m"
  then show "fst (get_coin_by_id cfg up coin_id calls)
        = Inl (HTTPException 503 (''Error fetching data from CoinGecko: '' @ m))"
    by (intro get_coin_by_id_error op_RequestException)
qed

theorem get_coin_by_id_failures_witness:
  "fst (get_coin_by_id test_config (\<lambda>r. OtherException ''Test exception'') ''bitcoin'' [])
     = Inl (HTTPException 404 ''Coin not found: bitcoin'')
   \<and> fst (get_coin_by_id test_config (\<lambda>r. Response (JList [])) ''bitcoin'' [])
     = Inl (HTTPException 404 ''Coin not found: bitcoin'')
   \<and> fst (get_coin_by_id test_config (\<lambda>r. HTTPError 404 ''404 Client Error'') ''invalid-coin'' [])
     = Inl (HTTPException 404 ''404 Client Error'')
   \<and> fst (get_coin_by_id test_config (\<lambda>r. RequestException ''Network error'') ''bitcoin'' [])
     = Inl (HTTPException 503 ''Error fetching data from CoinGecko: Network error'')"
proof -
  have e: "fst (get_coin_by_id test_config (\<lambda>r. Response (JList [])) ''bitcoin'' [])
           = Inl (HTTPException 404 ''Coin not found: bitcoin'')"
    by (simp add: get_coin_by_id_def make_request_def handle_def build_dict_def
          coin_detail_paths_def bind_exc_def no_attribute_get_def)
  show ?thesis
    using get_coin_by_id_failures [of "\<lambda>r. OtherException ''Test exception''" test_config
            "''bitcoin''" "''Test exception''" "[]"]
          get_coin_by_id_failures [of "\<lambda>r. Response (JList [])" test_config
            "''bitcoin''" _ "[]" "JList []" "HTTPException 404 ''Coin not found: bitcoin''"] e
          get_coin_by_id_failures [of "\<lambda>r. HTTPError 404 ''404 Client Error''" test_config
            "''invalid-coin''" "''404 Client Error''" "[]" _ _ 404]
          get_coin_by_id_failures [of "\<lambda>r. RequestException ''Network error''" test_config
            "''bitcoin''" "''Network error''" "[]"]
    by simp
qed

text \<open>
  Claim C6 as stated fails: a provider status 429 and a transport failure inside
  \<open>get_coin_by_id\<close> are reported with the status 429 and 503, not 404.
\<close>

theorem get_coin_by_id_not_always_404_counterexample:
  "fst (get_coin_by_id test_config (\<lambda>r. HTTPError 429 ''429 Client Error'') ''bitcoin'' [])
     = Inl (HTTPException 429 ''Rate limit exceeded. Please try again later.'')
   \<and> fst (get_coin_by_id test_config (\<lambda>r. RequestException ''Network error'') ''bitcoin'' [])
     = Inl (HTTPException 503 ''Error fetching data from CoinGecko: Network error'')
   \<and> status_code (HTTPException 429 ''Rate limit exceeded. Please try again later.'') \<noteq> Some 404
   \<and> status_code (HTTPException 503 ''Error fetching data from CoinGecko: Network error'')
       \<noteq> Some 404"
  by (simp add: get_coin_by_id_def make_request_def handle_def)

subsection \<open>An absent category\<close>

text \<open>
  Claim C7. When the category request returns a payload that is falsy (\<open>None\<close> or an empty
  object in particular), \<open>get_coins_by_category\<close> returns the dict of the given category id
  and an empty coin list, raises nothing, and issues the category request only: the
  coin-market request is not among the calls.
\<close>

theorem get_coins_by_category_absent:
  assumes "up (mk_request cfg (''coins/categories/'' @ category_id) None) = Response v"
    and "\<not> truthy v"
  shows "get_coins_by_category cfg up category_id page per_page calls
         = (Inr (JDict [(''category'', JStr category_id), (''coins'', JList [])]),
            calls @ [mk_request cfg (''coins/categories/'' @ category_id) None])
         \<and> mk_request cfg ''coins/markets'' (Some (category_params cfg category_id page per_page))
             \<notin> set [mk_request cfg (''coins/categories/'' @ category_id) None]
         \<and> \<not> truthy JNull \<and> \<not> truthy (JDict [])"
  using assms by (simp add: get_coins_by_category_def make_request_Response mk_request_def)

theorem get_coins_by_category_absent_witness:
  "\<not> truthy JNull
   \<and> get_coins_by_category test_config (\<lambda>r. Response JNull) ''defi'' 1 10 []
     = (Inr (JDict [(''category'', JStr ''defi''), (''coins'', JList [])]),
        [\<lparr>url = ''https://api.coingecko.com/api/v3/coins/categories/defi'', params = None,
          headers = [(''X-CG-Demo-API-Key'', Some ''demo-key'')], timeout = 200\<rparr>])
   \<and> get_coins_by_category test_config (\<lambda>r. Response (JDict [])) ''defi'' 2 5 []
     = (Inr (JDict [(''category'', JStr ''defi''), (''coins'', JList [])]),
        [\<lparr>url = ''https://api.coingecko.com/api/v3/coins/categories/defi'', params = None,
          headers = [(''X-CG-Demo-API-Key'', Some ''demo-key'')], timeout = 200\<rparr>])"
  using get_coins_by_category_absent [of "\<lambda>r. Response JNull" test_config "''defi''" JNull 1 10 "[]"]
        get_coins_by_category_absent [of "\<lambda>r. Response (JDict [])" test_config "''defi''" "JDict []" 2 5 "[]"]
  by (simp add: mk_request_def test_config_def str_of_opt_def)

subsection \<open>The coin list and its envelope\<close>

lemma py_slice_0_take: "0 \<le> stop \<Longrightarrow> py_slice xs 0 stop = take (nat stop) xs"
  using py_slice_nonneg [of 0 stop xs] by simp

lemma map_exc_length: "map_exc f xs = Inr ys \<Longrightarrow> length ys = length xs"
  by (induction xs arbitrary: ys) (auto split: sum.splits)

lemma map_exc_reshape_dicts: "map_exc reshape_coin (map JDict ds) = Inr (map coin_fields ds)"
  by (induction ds) auto

lemma coins_body_length:
  assumes "0 \<le> per_page"
    and "bind_exc (slice_to data per_page)
           (\<lambda>data1. bind_exc (py_iter data1) (map_exc reshape_coin)) = Inr items"
  shows "int (length items) \<le> per_page"
proof (cases data)
  case (JList xs)
  with assms(2) have "map_exc reshape_coin (py_slice xs 0 per_page) = Inr items"
    by (simp add: bind_exc_def)
  then have "length items = length (take (nat per_page) xs)"
    using assms(1) by (simp add: map_exc_length py_slice_0_take)
  then show ?thesis using assms(1) by simp
next
  case (JStr s)
  with assms(2) have "map_exc reshape_coin (map (\<lambda>c. JStr [c]) (py_slice s 0 per_page)) = Inr items"
    by (simp add: bind_exc_def)
  then have "length items = length (take (nat per_page) s)"
    using assms(1) by (simp add: map_exc_length py_slice_0_take)
  then show ?thesis using assms(1) by simp
qed (use assms(2) in \<open>simp_all add: bind_exc_def\<close>)


lemma get_coins_list_Response:
  assumes "up (mk_request cfg ''coins/markets'' (Some (coins_list_params cfg page per_page)))
           = Response data"
  shows "fst (get_coins_list cfg up page per_page calls)
         = handle 500 (\<lambda>m. ''Internal server error: '' @ m)
             (if \<not> truthy data then Inr []
              else bind_exc (slice_to data per_page)
                     (\<lambda>data1. bind_exc (py_iter data1) (map_exc reshape_coin)))"
  using assms by (simp add: get_coins_list_def make_request_Response)

lemma handle_eq_Inr: "(handle st mk r = Inr v) = (r = Inr v)"
  by (auto simp: handle_def split: sum.splits exc.splits)

lemma get_coins_list_length:
  assumes "0 \<le> per_page" and "fst (get_coins_list cfg up page per_page calls) = Inr items"
  shows "int (length items) \<le> per_page"
proof (cases "up (mk_request cfg ''coins/markets'' (Some (coins_list_params cfg page per_page)))")
  case (Response data)
  from assms(2) have "(if \<not> truthy data then Inr []
              else bind_exc (slice_to data per_page)
                     (\<lambda>data1. bind_exc (py_iter data1) (map_exc reshape_coin))) = Inr items"
    using get_coins_list_Response [of up cfg page per_page data calls] Response
    by (simp add: handle_eq_Inr)
  then show ?thesis
    using assms(1) coins_body_length [OF assms(1), of data items]
    by (cases "truthy data") auto
qed (use assms(2) in \<open>auto simp: get_coins_list_def make_request_def handle_def split: if_splits\<close>)


lemma list_coins_eq:
  "fst (list_coins cfg up page per_page calls)
   = (case fst (get_coins_list cfg up (fst (validate_pagination_params page per_page 100))
                  (snd (validate_pagination_params page per_page 100)) calls) of
        Inl e \<Rightarrow> Inl e
      | Inr coins \<Rightarrow>
          Inr \<lparr>resp_page = fst (validate_pagination_params page per_page 100),
               resp_per_page = snd (validate_pagination_params page per_page 100),
               resp_total =
                 (if coins \<noteq> []
                  then fst (validate_pagination_params page per_page 100)
                         * snd (validate_pagination_params page per_page 100)
                       + snd (validate_pagination_params page per_page 100)
                  else fst (validate_pagination_params page per_page 100)
                         * snd (validate_pagination_params page per_page 100)),
               resp_items = coins\<rparr>)"
  by (simp add: list_coins_def MAX_PER_PAGE_def Let_def split: prod.splits sum.splits)

lemma validate_snd_pos: "1 \<le> snd (validate_pagination_params page per_page 100)"
  by (simp add: validate_pagination_params_def Let_def)

lemma list_coins_length:
  assumes "fst (list_coins cfg up page per_page calls) = Inr r"
  shows "int (length (resp_items r)) \<le> resp_per_page r"
proof -
  let ?p = "fst (validate_pagination_params page per_page 100)"
  let ?pp = "snd (validate_pagination_params page per_page 100)"
  from assms obtain coins where c: "fst (get_coins_list cfg up ?p ?pp calls) = Inr coins"
    and r: "resp_items r = coins" "resp_per_page r = ?pp"
    unfolding list_coins_eq by (auto split: sum.splits)
  have "0 \<le> ?pp" using validate_snd_pos [of page per_page] by linarith
  then show ?thesis using get_coins_list_length [OF _ c] r by simp
qed



subsection \<open>The length of the returned items\<close>

lemma get_coins_by_category_Response:
  assumes "up (mk_request cfg (''coins/categories/'' @ category_id) None) = Response v"
    and "truthy v"
    and "up (mk_request cfg ''coins/markets''
               (Some (category_params cfg category_id page per_page))) = Response coins_data"
  shows "fst (get_coins_by_category cfg up category_id page per_page calls)
         = handle 500 (\<lambda>m. ''Error fetching category coins: '' @ m)
             (bind_exc (bind_exc (py_iter coins_data) (map_exc reshape_coin))
                (\<lambda>category_coins.
                   bind_exc (attr_get v (Some ''name'') (JStr category_id))
                     (\<lambda>category_name.
                        Inr (JDict [(''category'', category_name),
                                    (''coins'', JList category_coins)]))))"
  using assms by (simp add: get_coins_by_category_def make_request_Response Let_def)

lemma get_coins_by_category_length:
  assumes "up (mk_request cfg (''coins/categories/'' @ category_id) None) = Response v"
    and "truthy v"
    and "up (mk_request cfg ''coins/markets''
               (Some (category_params cfg category_id page per_page))) = Response (JList ys)"
    and "fst (get_coins_by_category cfg up category_id page per_page calls) = Inr r"
  shows "\<exists>nm cs. r = JDict [(''category'', nm), (''coins'', JList cs)] \<and> length cs = length ys"
  using assms(4)
  unfolding get_coins_by_category_Response [of up cfg category_id v page per_page "JList ys" calls,
      OF assms(1,2,3)] handle_eq_Inr
  by (auto simp: bind_exc_def split: sum.splits dest: map_exc_length)

lemma get_coins_by_category_records:
  assumes "up (mk_request cfg (''coins/categories/'' @ category_id) None) = Response (JDict cd)"
    and "cd \<noteq> []"
    and "up (mk_request cfg ''coins/markets''
               (Some (category_params cfg category_id page per_page)))
         = Response (JList (map JDict ds))"
  shows "fst (get_coins_by_category cfg up category_id page per_page calls)
         = Inr (JDict [(''category'', dict_get cd (Some ''name'') (JStr category_id)),
                       (''coins'', JList (map coin_fields ds))])"
  using assms
  by (simp add: get_coins_by_category_Response [of up cfg category_id "JDict cd" page per_page
        "JList (map JDict ds)" calls] map_exc_reshape_dicts bind_exc_def handle_def)

lemma paginate_length:
  assumes "1 \<le> page" and "0 \<le> per_page"
  shows "int (length (resp_items (paginate_response xs page per_page))) \<le> per_page"
  using assms by (simp add: paginate_items)

text \<open>
  Claim C4, as amended. Under a normalized \<open>(page, per_page)\<close> the slicing helper,
  \<open>get_coins_list\<close> and the coin-list endpoint never return more than \<open>per_page\<close> items,
  whatever the payload. \<open>get_coins_by_category\<close> does not truncate: it returns as many coins
  as the provider's list holds, all of them reduced, so its length is the provider's.
\<close>

theorem items_length_bounded:
  assumes "1 \<le> page" and "1 \<le> per_page"
  shows "int (length (resp_items (paginate_response xs page per_page))) \<le> per_page
         \<and> (\<forall>items. fst (get_coins_list cfg up page per_page calls) = Inr items
                \<longrightarrow> int (length items) \<le> per_page)
         \<and> (\<forall>r. fst (list_coins cfg up page per_page calls) = Inr r
                \<longrightarrow> int (length (resp_items r)) \<le> resp_per_page r)
         \<and> (\<forall>v ys r. up (mk_request cfg (''coins/categories/'' @ category_id) None) = Response v
                \<and> truthy v
                \<and> up (mk_request cfg ''coins/markets''
                         (Some (category_params cfg category_id page per_page)))
                    = Response (JList ys)
                \<and> fst (get_coins_by_category cfg up category_id page per_page calls) = Inr r
                \<longrightarrow> (\<exists>nm cs. r = JDict [(''category'', nm), (''coins'', JList cs)]
                              \<and> length cs = length ys))
         \<and> (\<forall>cd ds. up (mk_request cfg (''coins/categories/'' @ category_id) None)
                      = Response (JDict cd)
                \<and> cd \<noteq> []
                \<and> up (mk_request cfg ''coins/markets''
                         (Some (category_params cfg category_id page per_page)))
                    = Response (JList (map JDict ds))
                \<longrightarrow> fst (get_coins_by_category cfg up category_id page per_page calls)
                    = Inr (JDict [(''category'', dict_get cd (Some ''name'') (JStr category_id)),
                                  (''coins'', JList (map coin_fields ds))]))"
proof (intro conjI allI impI)
  show "int (length (resp_items (paginate_response xs page per_page))) \<le> per_page"
    using assms by (simp add: paginate_length)
next
  fix items
  assume "fst (get_coins_list cfg up page per_page calls) = Inr items"
  then show "int (length items) \<le> per_page"
    using assms(2) get_coins_list_length [of per_page cfg up page calls items] by simp
next
  fix r
  assume "fst (list_coins cfg up page per_page calls) = Inr r"
  then show "int (length (resp_items r)) \<le> resp_per_page r"
    by (rule list_coins_length)
next
  fix v ys r
  assume "up (mk_request cfg (''coins/categories/'' @ category_id) None) = Response v
                \<and> truthy v
                \<and> up (mk_request cfg ''coins/markets''
                         (Some (category_params cfg category_id page per_page)))
                    = Response (JList ys)
                \<and> fst (get_coins_by_category cfg up category_id page per_page calls) = Inr r"
  then show "\<exists>nm cs. r = JDict [(''category'', nm), (''coins'', JList cs)]
                              \<and> length cs = length ys"
    by (blast intro: get_coins_by_category_length)
next
  fix cd ds
  assume "up (mk_request cfg (''coins/categories/'' @ category_id) None)
                      = Response (JDict cd)
                \<and> cd \<noteq> []
                \<and> up (mk_request cfg ''coins/markets''
                         (Some (category_params cfg category_id page per_page)))
                    = Response (JList (map JDict ds))"
  then show "fst (get_coins_by_category cfg up category_id page per_page calls)
                    = Inr (JDict [(''category'', dict_get cd (Some ''name'') (JStr category_id)),
                                  (''coins'', JList (map coin_fields ds))])"
    by (blast intro: get_coins_by_category_records)
qed


theorem items_length_bounded_witness:
  "(1::int) \<le> 1
   \<and> resp_items (paginate_response [5, 6, 7::nat] 1 1) = [5]
   \<and> fst (get_coins_list test_config
            (\<lambda>r. if params r = None then Response (JDict [(''name'', JStr ''DeFi'')])
                  else Response (JList [JDict [(''id'', JStr ''a'')], JDict [(''id'', JStr ''b'')]]))
            1 1 [])
     = Inr [coin_fields [(''id'', JStr ''a'')]]
   \<and> truthy (JDict [(''name'', JStr ''DeFi'')])
   \<and> fst (get_coins_by_category test_config
            (\<lambda>r. if params r = None then Response (JDict [(''name'', JStr ''DeFi'')])
                  else Response (JList [JDict [(''id'', JStr ''a'')], JDict [(''id'', JStr ''b'')]]))
            ''defi'' 1 1 [])
     = Inr (JDict [(''category'', JStr ''DeFi''),
                   (''coins'', JList [coin_fields [(''id'', JStr ''a'')],
                                      coin_fields [(''id'', JStr ''b'')]])])"
proof -
  let ?up = "\<lambda>r::request. if params r = None then Response (JDict [(''name'', JStr ''DeFi'')])
                  else Response (JList [JDict [(''id'', JStr ''a'')], JDict [(''id'', JStr ''b'')]])"
  have g: "fst (get_coins_list test_config ?up 1 1 []) = Inr [coin_fields [(''id'', JStr ''a'')]]"
    by (simp add: get_coins_list_Response mk_request_def handle_def bind_exc_def
          py_slice_0_take)
  have p: "resp_items (paginate_response [5, 6, 7::nat] 1 1) = [5]"
    by (simp add: paginate_items)
  show ?thesis
    using items_length_bounded [of 1 1 "[5, 6, 7::nat]" test_config ?up "[]" "''defi''",
            THEN conjunct2, THEN conjunct2, THEN conjunct2, THEN conjunct2,
            THEN spec, THEN spec,
            of "[(''name'', JStr ''DeFi'')]" "[[(''id'', JStr ''a'')], [(''id'', JStr ''b'')]]"]
          g p
    by (simp add: mk_request_def dict_get_def)
qed

text \<open>
  Claim C4 as stated fails for \<open>get_coins_by_category\<close>: with the normalized pair \<open>(1, 1)\<close>
  and a provider that answers with two coins, two coins are returned.
\<close>

theorem get_coins_by_category_unbounded_counterexample:
  "validate_pagination_params 1 1 100 = (1, 1)
   \<and> fst (get_coins_by_category test_config
            (\<lambda>r. if params r = None then Response (JDict [(''name'', JStr ''DeFi'')])
                  else Response (JList [JDict [(''id'', JStr ''a'')], JDict [(''id'', JStr ''b'')]]))
            ''defi'' 1 1 [])
     = Inr (JDict [(''category'', JStr ''DeFi''),
                   (''coins'', JList [coin_fields [(''id'', JStr ''a'')],
                                      coin_fields [(''id'', JStr ''b'')]])])
   \<and> fst (category_coins_endpoint test_config
            (\<lambda>r. if params r = None then Response (JDict [(''name'', JStr ''DeFi'')])
                  else Response (JList [JDict [(''id'', JStr ''a'')], JDict [(''id'', JStr ''b'')]]))
            ''defi'' 1 1 [])
     = Inr (JDict [(''category'', JStr ''DeFi''),
                   (''coins'', JList [coin_fields [(''id'', JStr ''a'')],
                                      coin_fields [(''id'', JStr ''b'')]])])
   \<and> \<not> int (length [coin_fields [(''id'', JStr ''a'')], coin_fields [(''id'', JStr ''b'')]])
         \<le> 1"
  by (simp add: validate_pagination_params_def category_coins_endpoint_def MAX_PER_PAGE_def
        get_coins_by_category_def make_request_def mk_request_def handle_def bind_exc_def
        dict_get_def Let_def)

subsection \<open>The reshaping of the coin detail\<close>

lemma get_path_not_dict:
  "\<forall>d'. dict_get d k1 d1 \<noteq> JDict d' \<Longrightarrow>
   \<exists>e. get_path (JDict d) [(k1, d1), (k2, d2)] = Inl e"
  by (cases "dict_get d k1 d1") auto

lemma get_coin_by_id_success:
  assumes "up (mk_request cfg (''coins/'' @ coin_id) (Some (coin_params cfg))) = Response (JDict d)"
    and "dict_get d (Some ''market_data'') (JDict []) = JDict md"
    and "dict_get md (Some ''current_price'') (JDict []) = JDict cp"
    and "dict_get md (Some ''market_cap'') (JDict []) = JDict mc"
    and "dict_get d (Some ''links'') (JDict []) = JDict l"
  shows "fst (get_coin_by_id cfg up coin_id calls)
         = Inr (JDict
             [(''id'', dict_get d (Some ''id'') JNull),
              (''symbol'', dict_get d (Some ''symbol'') JNull),
              (''name'', dict_get d (Some ''name'') JNull),
              (''current_price'', dict_get cp (default_currency cfg) JNull),
              (''market_cap'', dict_get mc (default_currency cfg) JNull),
              (''market_cap_rank'', dict_get d (Some ''market_cap_rank'') JNull),
              (''price_change_24h'', dict_get md (Some ''price_change_24h'') JNull),
              (''price_change_percentage_24h'',
                 dict_get md (Some ''price_change_percentage_24h'') JNull),
              (''description'', dict_get d (Some ''description'') JNull),
              (''categories'', dict_get d (Some ''categories'') JNull),
              (''links'', JDict
                 [(''homepage'', dict_get l (Some ''homepage'') (JList [])),
                  (''blockchain_site'', dict_get l (Some ''blockchain_site'') (JList [])),
                  (''official_forum_url'',
                     dict_get l (Some ''official_forum_url'') (JList []))])])"
proof -
  have f: "build_dict (JDict d) (coin_detail_paths cfg)
           = Inr [(''id'', dict_get d (Some ''id'') JNull),
              (''symbol'', dict_get d (Some ''symbol'') JNull),
              (''name'', dict_get d (Some ''name'') JNull),
              (''current_price'', dict_get cp (default_currency cfg) JNull),
              (''market_cap'', dict_get mc (default_currency cfg) JNull),
              (''market_cap_rank'', dict_get d (Some ''market_cap_rank'') JNull),
              (''price_change_24h'', dict_get md (Some ''price_change_24h'') JNull),
              (''price_change_percentage_24h'',
                 dict_get md (Some ''price_change_percentage_24h'') JNull),
              (''description'', dict_get d (Some ''description'') JNull),
              (''categories'', dict_get d (Some ''categories'') JNull)]"
    using assms(2,3,4) by (simp add: build_dict_def coin_detail_paths_def bind_exc_def)
  have g: "build_dict (JDict d) links_paths
           = Inr [(''homepage'', dict_get l (Some ''homepage'') (JList [])),
                  (''blockchain_site'', dict_get l (Some ''blockchain_site'') (JList [])),
                  (''official_forum_url'',
                     dict_get l (Some ''official_forum_url'') (JList []))]"
    using assms(5) by (simp add: build_dict_def links_paths_def bind_exc_def)
  show ?thesis
    using assms(1)
    by (simp add: get_coin_by_id_def make_request_def Let_def f g bind_exc_def handle_def)
qed

lemma get_coin_by_id_links_not_dict:
  assumes "up (mk_request cfg (''coins/'' @ coin_id) (Some (coin_params cfg))) = Response (JDict d)"
    and "\<forall>l. dict_get d (Some ''links'') (JDict []) \<noteq> JDict l"
  shows "\<exists>e. fst (get_coin_by_id cfg up coin_id calls) = Inl e"
proof -
  obtain e where "get_path (JDict d) [(Some ''links'', JDict []), (Some ''homepage'', JList [])]
                  = Inl e"
    using get_path_not_dict [OF assms(2)] by blast
  then have "build_dict (JDict d) links_paths = Inl e"
    by (simp add: build_dict_def links_paths_def bind_exc_def)
  then show ?thesis
    using assms(1)
    by (auto simp add: get_coin_by_id_def make_request_def Let_def bind_exc_def handle_def
          split: sum.splits exc.splits)
qed

text \<open>
  Claim C9. For a payload of \<open>get_coin_by_id\<close> that holds
  \<open>market_data.current_price.<currency>\<close> and \<open>market_data.market_cap.<currency>\<close> for the
  configured default currency, the \<open>current_price\<close> and \<open>market_cap\<close> of every returned
  dict are these nested values, and each of the keys \<open>homepage\<close>, \<open>blockchain_site\<close> and
  \<open>official_forum_url\<close> of its \<open>links\<close> is the payload's value, or the empty list when the
  payload has none. The operation does return when \<open>links\<close> is absent or an object.
\<close>

theorem get_coin_by_id_flattens:
  assumes "up (mk_request cfg (''coins/'' @ coin_id) (Some (coin_params cfg))) = Response (JDict d)"
    and "default_currency cfg = Some currency"
    and "map_of d ''market_data'' = Some (JDict md)"
    and "map_of md ''current_price'' = Some (JDict cp)"
    and "map_of cp currency = Some price"
    and "map_of md ''market_cap'' = Some (JDict mc)"
    and "map_of mc currency = Some cap"
  shows "(\<forall>r. fst (get_coin_by_id cfg up coin_id calls) = Inr r
            \<longrightarrow> (\<exists>fields l ls.
                   r = JDict fields
                   \<and> map_of fields ''current_price'' = Some price
                   \<and> map_of fields ''market_cap'' = Some cap
                   \<and> dict_get d (Some ''links'') (JDict []) = JDict l
                   \<and> map_of fields ''links'' = Some (JDict ls)
                   \<and> (\<forall>k \<in> {''homepage'', ''blockchain_site'', ''official_forum_url''}.
                         map_of ls k
                         = Some (case map_of l k of None \<Rightarrow> JList [] | Some v \<Rightarrow> v))))
         \<and> (map_of d ''links'' = None \<or> (\<exists>l. map_of d ''links'' = Some (JDict l))
            \<longrightarrow> (\<exists>r. fst (get_coin_by_id cfg up coin_id calls) = Inr r))"
proof (intro conjI allI impI)
  have md: "dict_get d (Some ''market_data'') (JDict []) = JDict md"
    and cp: "dict_get md (Some ''current_price'') (JDict []) = JDict cp"
    and mc: "dict_get md (Some ''market_cap'') (JDict []) = JDict mc"
    using assms by (simp_all add: dict_get_def)
  have pr: "dict_get cp (default_currency cfg) JNull = price"
    and ca: "dict_get mc (default_currency cfg) JNull = cap"
    using assms by (simp_all add: dict_get_def)
  {
    fix r
    assume r: "fst (get_coin_by_id cfg up coin_id calls) = Inr r"
    then obtain l where l: "dict_get d (Some ''links'') (JDict []) = JDict l"
      using get_coin_by_id_links_not_dict [of up cfg coin_id d calls] assms(1) by fastforce
    have "fst (get_coin_by_id cfg up coin_id calls)
         = Inr (JDict
             [(''id'', dict_get d (Some ''id'') JNull),
              (''symbol'', dict_get d (Some ''symbol'') JNull),
              (''name'', dict_get d (Some ''name'') JNull),
              (''current_price'', price),
              (''market_cap'', cap),
              (''market_cap_rank'', dict_get d (Some ''market_cap_rank'') JNull),
              (''price_change_24h'', dict_get md (Some ''price_change_24h'') JNull),
              (''price_change_percentage_24h'',
                 dict_get md (Some ''price_change_percentage_24h'') JNull),
              (''description'', dict_get d (Some ''description'') JNull),
              (''categories'', dict_get d (Some ''categories'') JNull),
              (''links'', JDict
                 [(''homepage'', dict_get l (Some ''homepage'') (JList [])),
                  (''blockchain_site'', dict_get l (Some ''blockchain_site'') (JList [])),
                  (''official_forum_url'',
                     dict_get l (Some ''official_forum_url'') (JList []))])])"
      (is "_ = Inr (JDict ?fields)")
      using get_coin_by_id_success [of up cfg coin_id d md cp mc l calls] assms(1) md cp mc l
      by (simp add: pr ca)
    with r have "r = JDict ?fields" by simp
    moreover have "map_of ?fields ''current_price'' = Some price"
      and "map_of ?fields ''market_cap'' = Some cap"
      by simp_all
    moreover have "map_of ?fields ''links''
        = Some (JDict [(''homepage'', dict_get l (Some ''homepage'') (JList [])),
                  (''blockchain_site'', dict_get l (Some ''blockchain_site'') (JList [])),
                  (''official_forum_url'',
                     dict_get l (Some ''official_forum_url'') (JList []))])"
      (is "_ = Some (JDict ?ls)")
      by simp
    moreover have "\<forall>k \<in> {''homepage'', ''blockchain_site'', ''official_forum_url''}.
                         map_of ?ls k
                         = Some (case map_of l k of None \<Rightarrow> JList [] | Some v \<Rightarrow> v)"
      by (simp add: dict_get_def)
    ultimately show "\<exists>fields l ls.
                   r = JDict fields
                   \<and> map_of fields ''current_price'' = Some price
                   \<and> map_of fields ''market_cap'' = Some cap
                   \<and> dict_get d (Some ''links'') (JDict []) = JDict l
                   \<and> map_of fields ''links'' = Some (JDict ls)
                   \<and> (\<forall>k \<in> {''homepage'', ''blockchain_site'', ''official_forum_url''}.
                         map_of ls k
                         = Some (case map_of l k of None \<Rightarrow> JList [] | Some v \<Rightarrow> v))"
      using l by blast
  }
  {
    assume "map_of d ''links'' = None \<or> (\<exists>l. map_of d ''links'' = Some (JDict l))"
    then obtain l where l: "dict_get d (Some ''links'') (JDict []) = JDict l"
      by (auto simp: dict_get_def)
    show "\<exists>r. fst (get_coin_by_id cfg up coin_id calls) = Inr r"
      using get_coin_by_id_success [of up cfg coin_id d md cp mc l calls] assms(1) md cp mc l
      by simp
  }
qed

theorem get_coin_by_id_flattens_witness:
  "fst (get_coin_by_id test_config (\<lambda>r. Response bitcoin_payload) ''bitcoin'' [])
   = Inr (JDict
       [(''id'', JStr ''bitcoin''), (''symbol'', JStr ''btc''), (''name'', JStr ''Bitcoin''),
        (''current_price'', JFloat 50000), (''market_cap'', JFloat 1000000000),
        (''market_cap_rank'', JNull), (''price_change_24h'', JFloat 1000),
        (''price_change_percentage_24h'', JFloat (5 / 2)),
        (''description'', JNull), (''categories'', JNull),
        (''links'', JDict [(''homepage'', JList [JStr ''https://bitcoin.org'']),
                           (''blockchain_site'', JList []),
                           (''official_forum_url'', JList [])])])"
proof -
  let ?d = "[(''id'', JStr ''bitcoin''), (''symbol'', JStr ''btc''), (''name'', JStr ''Bitcoin''),
            (''market_data'',
               JDict [(''current_price'', JDict [(''usd'', JFloat 36000), (''cad'', JFloat 50000)]),
                      (''market_cap'', JDict [(''cad'', JFloat 1000000000)]),
                      (''price_change_24h'', JFloat 1000),
                      (''price_change_percentage_24h'', JFloat (5 / 2))]),
            (''links'', JDict [(''homepage'', JList [JStr ''https://bitcoin.org''])])]"
  have e: "fst (get_coin_by_id test_config (\<lambda>r. Response (JDict ?d)) ''bitcoin'' [])
   = Inr (JDict
       [(''id'', JStr ''bitcoin''), (''symbol'', JStr ''btc''), (''name'', JStr ''Bitcoin''),
        (''current_price'', JFloat 50000), (''market_cap'', JFloat 1000000000),
        (''market_cap_rank'', JNull), (''price_change_24h'', JFloat 1000),
        (''price_change_percentage_24h'', JFloat (5 / 2)),
        (''description'', JNull), (''categories'', JNull),
        (''links'', JDict [(''homepage'', JList [JStr ''https://bitcoin.org'']),
                           (''blockchain_site'', JList []),
                           (''official_forum_url'', JList [])])])"
    using get_coin_by_id_success [of "\<lambda>r. Response (JDict ?d)" test_config "''bitcoin''" ?d
            "[(''current_price'', JDict [(''usd'', JFloat 36000), (''cad'', JFloat 50000)]),
              (''market_cap'', JDict [(''cad'', JFloat 1000000000)]),
              (''price_change_24h'', JFloat 1000),
              (''price_change_percentage_24h'', JFloat (5 / 2))]"
            "[(''usd'', JFloat 36000), (''cad'', JFloat 50000)]"
            "[(''cad'', JFloat 1000000000)]"
            "[(''homepage'', JList [JStr ''https://bitcoin.org''])]" "[]"]
    by (simp add: dict_get_def test_config_def)
  show ?thesis
    using get_coin_by_id_flattens [of "\<lambda>r. Response bitcoin_payload" test_config "''bitcoin''"
            ?d "''cad''" _ _ "JFloat 50000" _ "JFloat 1000000000" "[]"] e
    by (simp add: bitcoin_payload_def test_config_def)
qed

subsection \<open>The category list\<close>

lemma collect_categories_eq:
  "collect_categories xs acc
   = (case map_exc from_coingecko (dict_entries xs) of
        Inl e \<Rightarrow> Inl e
      | Inr cs \<Rightarrow> Inr (acc @ cs))"
proof (induction xs acc rule: collect_categories.induct)
  case (2 d rest categories)
  then show ?case
    by (cases "from_coingecko d") (auto split: sum.splits)
qed simp_all

lemma dict_entries_skip:
  "\<forall>d. v \<noteq> JDict d \<Longrightarrow> dict_entries (xs @ v # ys) = dict_entries (xs @ ys)"
  by (induction xs rule: dict_entries.induct) (cases v; simp)+

lemma get_coin_categories_Response:
  assumes "up (mk_request cfg ''coins/categories/list'' None) = Response data"
  shows "get_coin_categories cfg up calls
         = (handle 500 (\<lambda>m. ''Internal server error: '' @ m)
              (case data of JList entries \<Rightarrow> map_exc from_coingecko (dict_entries entries)
                          | _ \<Rightarrow> Inr []),
            calls @ [mk_request cfg ''coins/categories/list'' None])"
  using assms
  by (cases data)
     (simp_all add: get_coin_categories_def make_request_Response collect_categories_eq
        split: sum.splits)

lemma from_coingecko_Inl: "from_coingecko d = Inl e \<Longrightarrow> \<exists>m. e = PyError m"
  unfolding from_coingecko_def
  by (cases "dict_get d (Some ''category_id'') (JStr [])";
      cases "dict_get d (Some ''name'') (JStr [])")
     (auto simp: validation_error_def)

lemma from_coingecko_strings:
  "dict_get d (Some ''category_id'') (JStr []) = JStr i \<Longrightarrow>
   dict_get d (Some ''name'') (JStr []) = JStr n \<Longrightarrow>
   from_coingecko d = Inr \<lparr>id' = i, name = n\<rparr>"
  by (simp add: from_coingecko_def)

lemma from_coingecko_not_string:
  "(\<forall>i. dict_get d (Some ''category_id'') (JStr []) \<noteq> JStr i)
   \<or> (\<forall>n. dict_get d (Some ''name'') (JStr []) \<noteq> JStr n) \<Longrightarrow>
   \<exists>e. from_coingecko d = Inl e"
  unfolding from_coingecko_def
  by (cases "dict_get d (Some ''category_id'') (JStr [])";
      cases "dict_get d (Some ''name'') (JStr [])") auto


lemma map_exc_fails:
  "x \<in> set xs \<Longrightarrow> f x = Inl e \<Longrightarrow> \<exists>e'. map_exc f xs = Inl e'"
  by (induction xs) (auto split: sum.splits)

lemma get_coin_categories_bad_entry:
  assumes "up (mk_request cfg ''coins/categories/list'' None) = Response (JList xs)"
    and "d \<in> set (dict_entries xs)"
    and "(\<forall>i. dict_get d (Some ''category_id'') (JStr []) \<noteq> JStr i)
         \<or> (\<forall>n. dict_get d (Some ''name'') (JStr []) \<noteq> JStr n)"
  shows "\<exists>m. fst (get_coin_categories cfg up calls)
             = Inl (HTTPException 500 (''Internal server error: '' @ m))"
proof -
  obtain e0 where "from_coingecko d = Inl e0"
    using from_coingecko_not_string [OF assms(3)] by blast
  then obtain e where e: "map_exc from_coingecko (dict_entries xs) = Inl e"
    using map_exc_fails [OF assms(2)] by blast
  then obtain d' where "from_coingecko d' = Inl e"
    using map_exc_Inl by blast
  then obtain m where "e = PyError m"
    using from_coingecko_Inl by blast
  with e show ?thesis
    using get_coin_categories_Response [of up cfg "JList xs" calls] assms(1)
    by (simp add: handle_def)
qed

text \<open>
  Claim C8, as amended. A payload of \<open>get_coin_categories\<close> that is no list gives the empty
  category list and no error. In a list payload an entry that is no dict is skipped: the
  result is the same with and without it. Every dict entry is kept: its \<open>category_id\<close> and
  \<open>name\<close> default to the empty string when absent and make a Category when they are
  strings; a dict entry with a \<open>category_id\<close> or \<open>name\<close> that is present and no string is
  not skipped but fails the whole operation with an HTTPException 500.
\<close>

theorem get_coin_categories_entries:
  "(up (mk_request cfg ''coins/categories/list'' None) = Response data
      \<and> (\<forall>xs. data \<noteq> JList xs)
    \<longrightarrow> get_coin_categories cfg up calls
        = (Inr [], calls @ [mk_request cfg ''coins/categories/list'' None]))
   \<and> ((\<forall>d. v \<noteq> JDict d)
    \<longrightarrow> fst (get_coin_categories cfg (\<lambda>r. Response (JList (xs @ v # ys))) calls)
        = fst (get_coin_categories cfg (\<lambda>r. Response (JList (xs @ ys))) calls))
   \<and> (up (mk_request cfg ''coins/categories/list'' None) = Response (JList xs)
      \<and> map_exc from_coingecko (dict_entries xs) = Inr cs
    \<longrightarrow> fst (get_coin_categories cfg up calls) = Inr cs)
   \<and> (dict_get d (Some ''category_id'') (JStr []) = JStr i
      \<and> dict_get d (Some ''name'') (JStr []) = JStr n
    \<longrightarrow> from_coingecko d = Inr \<lparr>id' = i, name = n\<rparr>)
   \<and> (up (mk_request cfg ''coins/categories/list'' None) = Response (JList xs)
      \<and> d \<in> set (dict_entries xs)
      \<and> ((\<forall>i. dict_get d (Some ''category_id'') (JStr []) \<noteq> JStr i)
         \<or> (\<forall>n. dict_get d (Some ''name'') (JStr []) \<noteq> JStr n))
    \<longrightarrow> (\<exists>m. fst (get_coin_categories cfg up calls)
              = Inl (HTTPException 500 (''Internal server error: '' @ m))))"
proof (intro conjI impI)
  assume "up (mk_request cfg ''coins/categories/list'' None) = Response data
      \<and> (\<forall>xs. data \<noteq> JList xs)"
  then show "get_coin_categories cfg up calls
        = (Inr [], calls @ [mk_request cfg ''coins/categories/list'' None])"
    using get_coin_categories_Response [of up cfg data calls]
    by (cases data) (simp_all add: handle_def)
next
  assume "\<forall>d. v \<noteq> JDict d"
  then show "fst (get_coin_categories cfg (\<lambda>r. Response (JList (xs @ v # ys))) calls)
        = fst (get_coin_categories cfg (\<lambda>r. Response (JList (xs @ ys))) calls)"
    by (simp add: get_coin_categories_Response dict_entries_skip)
next
  assume "up (mk_request cfg ''coins/categories/list'' None) = Response (JList xs)
      \<and> map_exc from_coingecko (dict_entries xs) = Inr cs"
  then show "fst (get_coin_categories cfg up calls) = Inr cs"
    using get_coin_categories_Response [of up cfg "JList xs" calls]
    by (simp add: handle_def)
next
  assume "dict_get d (Some ''category_id'') (JStr []) = JStr i
      \<and> dict_get d (Some ''name'') (JStr []) = JStr n"
  then show "from_coingecko d = Inr \<lparr>id' = i, name = n\<rparr>"
    by (simp add: from_coingecko_strings)
next
  assume "up (mk_request cfg ''coins/categories/list'' None) = Response (JList xs)
      \<and> d \<in> set (dict_entries xs)
      \<and> ((\<forall>i. dict_get d (Some ''category_id'') (JStr []) \<noteq> JStr i)
         \<or> (\<forall>n. dict_get d (Some ''name'') (JStr []) \<noteq> JStr n))"
  then show "\<exists>m. fst (get_coin_categories cfg up calls)
              = Inl (HTTPException 500 (''Internal server error: '' @ m))"
    using get_coin_categories_bad_entry [of up cfg xs d calls] by blast
qed

theorem get_coin_categories_entries_witness:
  "fst (get_coin_categories test_config (\<lambda>r. Response (JStr ''not a list'')) []) = Inr []
   \<and> fst (get_coin_categories test_config
            (\<lambda>r. Response (JList [JDict [(''category_id'', JStr ''defi''), (''name'', JStr ''DeFi'')],
                                   JStr ''junk'', JNull,
                                   JDict [(''name'', JStr ''NFT'')]])) [])
     = Inr [\<lparr>id' = ''defi'', name = ''DeFi''\<rparr>, \<lparr>id' = [], name = ''NFT''\<rparr>]
   \<and> fst (get_coin_categories test_config
            (\<lambda>r. Response (JList [JDict [(''category_id'', JStr ''defi''), (''name'', JStr ''DeFi'')],
                                   JInt 7])) [])
     = fst (get_coin_categories test_config
            (\<lambda>r. Response (JList [JDict [(''category_id'', JStr ''defi''), (''name'', JStr ''DeFi'')]]))
            [])
   \<and> raised_status (fst (get_coin_categories test_config
            (\<lambda>r. Response (JList [JDict [(''category_id'', JInt 5), (''name'', JStr ''Five'')]])) []))
     = Some 500"
proof -
  let ?defi = "[(''category_id'', JStr ''defi''), (''name'', JStr ''DeFi'')]"
  let ?nft = "[(''name'', JStr ''NFT'')]"
  let ?bad = "[(''category_id'', JInt 5), (''name'', JStr ''Five'')]"
  have a: "fst (get_coin_categories test_config (\<lambda>r. Response (JStr ''not a list'')) []) = Inr []"
    using get_coin_categories_entries [where up = "\<lambda>r. Response (JStr ''not a list'')"
            and cfg = test_config and data = "JStr ''not a list''" and calls = "[]"]
    by simp
  have b: "fst (get_coin_categories test_config
            (\<lambda>r. Response (JList [JDict ?defi, JStr ''junk'', JNull, JDict ?nft])) [])
     = Inr [\<lparr>id' = ''defi'', name = ''DeFi''\<rparr>, \<lparr>id' = [], name = ''NFT''\<rparr>]"
    using get_coin_categories_entries [where
            up = "\<lambda>r. Response (JList [JDict ?defi, JStr ''junk'', JNull, JDict ?nft])"
            and cfg = test_config and calls = "[]"
            and xs = "[JDict ?defi, JStr ''junk'', JNull, JDict ?nft]"
            and cs = "[\<lparr>id' = ''defi'', name = ''DeFi''\<rparr>, \<lparr>id' = [], name = ''NFT''\<rparr>]"]
    by (simp add: from_coingecko_def dict_get_def)
  have c: "fst (get_coin_categories test_config (\<lambda>r. Response (JList [JDict ?defi, JInt 7])) [])
     = fst (get_coin_categories test_config (\<lambda>r. Response (JList [JDict ?defi])) [])"
    using get_coin_categories_entries [where cfg = test_config and calls = "[]"
            and v = "JInt 7" and xs = "[JDict ?defi]" and ys = "[]"]
    by simp
  have d: "raised_status (fst (get_coin_categories test_config
            (\<lambda>r. Response (JList [JDict ?bad])) [])) = Some 500"
    using get_coin_categories_entries [where up = "\<lambda>r. Response (JList [JDict ?bad])"
            and cfg = test_config and calls = "[]" and xs = "[JDict ?bad]" and d = ?bad,
            THEN conjunct2, THEN conjunct2, THEN conjunct2, THEN conjunct2]
    by (auto simp: dict_get_def)
  from a b c d show ?thesis by simp
qed

text \<open>
  Claim C8 as stated fails for a record that is not well formed: a dict entry whose \<open>name\<close>
  is null is not skipped, the operation raises an HTTPException 500 and the well-formed
  entry before it is lost.
\<close>

theorem get_coin_categories_malformed_record_counterexample:
  "raised_status (fst (get_coin_categories test_config
      (\<lambda>r. Response (JList [JDict [(''category_id'', JStr ''defi''), (''name'', JStr ''DeFi'')],
                             JDict [(''category_id'', JStr ''nft''), (''name'', JNull)]])) []))
     = Some 500
   \<and> fst (get_coin_categories test_config
      (\<lambda>r. Response (JList [JDict [(''category_id'', JStr ''defi''), (''name'', JStr ''DeFi'')],
                             JDict [(''category_id'', JStr ''nft''), (''name'', JNull)]])) [])
     \<noteq> Inr [\<lparr>id' = ''defi'', name = ''DeFi''\<rparr>]"
  by (simp add: get_coin_categories_def make_request_def from_coingecko_def dict_get_def
        validation_error_def handle_def)

end
